theory Spec2Isabelle
  imports Complex_Main "HOL-Library.Char_ord" "HOL-Library.List_Lexorder" "HOL-Library.Product_Lexorder"
    "HOL-Library.Multiset"
begin

section \<open>Strings\<close>

text \<open>
  Strings are byte strings (\<open>char list\<close>). The texts of a request are taken to be
  ASCII. On such text Python's \<open>str.lower()\<close> and SQLite's \<open>LOWER()\<close> both map the
  letters \<open>A\<close> to \<open>Z\<close> to \<open>a\<close> to \<open>z\<close> and leave every other character alone, and
  \<open>str.strip()\<close> removes the leading and trailing characters for which \<open>str.isspace()\<close>
  holds.
\<close>

definition lower_char :: "char \<Rightarrow> char" where
  "lower_char c =
     (let n = (of_char c :: nat) in if 65 \<le> n \<and> n \<le> 90 then char_of (n + 32) else c)"

text \<open>\<open>s.lower()\<close> of Python.\<close>

definition py_lower :: "string \<Rightarrow> string" where
  "py_lower s = map lower_char s"

text \<open>\<open>LOWER(col)\<close> of SQLite.\<close>

definition sql_lower :: "string \<Rightarrow> string" where
  "sql_lower s = map lower_char s"

definition isspace :: "char \<Rightarrow> bool" where
  "isspace c =
     (let n = (of_char c :: nat) in (9 \<le> n \<and> n \<le> 13) \<or> (28 \<le> n \<and> n \<le> 32))"

text \<open>\<open>s.strip()\<close> of Python.\<close>

definition strip :: "string \<Rightarrow> string" where
  "strip s = rev (dropWhile isspace (rev (dropWhile isspace s)))"

text \<open>\<open>q.startswith(k)\<close>, and the substring test \<open>k in q\<close> built on it.\<close>

fun startswith :: "string \<Rightarrow> string \<Rightarrow> bool" where
  "startswith q [] = True"
| "startswith [] (k # ks) = False"
| "startswith (c # q) (k # ks) = (c = k \<and> startswith q ks)"

fun contains :: "string \<Rightarrow> string \<Rightarrow> bool" where
  "contains [] k = (k = [])"
| "contains (c # q) k = (startswith (c # q) k \<or> contains q k)"

text \<open>\<open>s.split(sep)\<close> of Python for a separator of one character.\<close>

fun split :: "char \<Rightarrow> string \<Rightarrow> string list" where
  "split sep [] = [[]]"
| "split sep (c # s) =
     (if c = sep then [] # split sep s
      else (case split sep s of [] \<Rightarrow> [[c]] | w # ws \<Rightarrow> (c # w) # ws))"

text \<open>Truthiness of \<open>data.get(k)\<close>: an absent key gives \<open>None\<close>, which is falsy, as is
  the empty string.\<close>

definition truthy :: "string option \<Rightarrow> bool" where
  "truthy v = (case v of None \<Rightarrow> False | Some s \<Rightarrow> s \<noteq> [])"

section \<open>The chat responder\<close>

text \<open>The canned replies, byte for byte as in \<open>chat\<close> (UTF-8).\<close>

definition reply_fever :: string where
  "reply_fever =
     [CHR 0xF0, CHR 0x9F, CHR 0x8C, CHR 0xA1, CHR 0xEF, CHR 0xB8, CHR 0x8F] @ '' For fever: Drink plenty of water, rest well, and take paracetamol 500mg if needed. If fever persists above 102'' @ [CHR 0xC2, CHR 0xB0] @ ''F or lasts more than 3 days, consult a doctor immediately.''"

definition reply_headache :: string where
  "reply_headache =
     [CHR 0xF0, CHR 0x9F, CHR 0x92, CHR 0x86] @ '' For headache: Rest in a quiet, dark room, stay hydrated, reduce screen time, and try a cold compress on your forehead. If severe or persistent, consult a doctor.''"

definition reply_cold :: string where
  "reply_cold =
     [CHR 0xF0, CHR 0x9F, CHR 0xA4, CHR 0xA7] @ '' For cold: Try steam inhalation, drink warm fluids like herbal tea or honey-lemon water, get adequate rest, and maintain good hygiene. Usually resolves in 7-10 days.''"

definition reply_cough :: string where
  "reply_cough =
     [CHR 0xF0, CHR 0x9F, CHR 0x98, CHR 0xB7] @ '' For cough: Stay hydrated, use honey (for adults), avoid irritants like smoke, and try warm liquids with ginger. See a doctor if it persists beyond 3 weeks or worsens.''"

definition reply_stomach :: string where
  "reply_stomach =
     [CHR 0xF0, CHR 0x9F, CHR 0xA4, CHR 0xA2] @ '' For stomach issues: Eat bland foods (BRAT diet: Bananas, Rice, Applesauce, Toast), stay hydrated with electrolyte solutions, avoid spicy/fatty foods. If severe pain, vomiting blood, or high fever present, seek immediate medical attention.''"

definition reply_pain :: string where
  "reply_pain =
     [CHR 0xF0, CHR 0x9F, CHR 0x92, CHR 0x8A] @ '' For general pain: Rest the affected area, apply ice for acute injuries or heat for muscle tension, consider over-the-counter pain relief (as directed). Persistent or severe pain requires medical evaluation.''"

definition reply_stress :: string where
  "reply_stress =
     [CHR 0xF0, CHR 0x9F, CHR 0xA7, CHR 0x98] @ '' For stress management: Practice deep breathing exercises, engage in regular physical activity, maintain 7-8 hours of sleep, talk to someone you trust. Consider meditation, yoga, or professional counseling.''"

definition reply_sleep :: string where
  "reply_sleep =
     [CHR 0xF0, CHR 0x9F, CHR 0x98, CHR 0xB4] @ '' For better sleep: Maintain consistent sleep schedule (same bedtime/wake time), avoid screens 1 hour before bed, keep room cool (60-67'' @ [CHR 0xC2, CHR 0xB0] @ ''F) and dark, avoid caffeine after 2 PM, try relaxation techniques.''"

definition reply_diet :: string where
  "reply_diet =
     [CHR 0xF0, CHR 0x9F, CHR 0xA5, CHR 0x97] @ '' For healthy diet: Include 5 servings of fruits and vegetables daily, choose whole grains over refined, eat lean proteins (fish, chicken, legumes), limit processed foods and added sugars. Drink 8 glasses of water daily.''"

definition reply_exercise :: string where
  "reply_exercise =
     [CHR 0xF0, CHR 0x9F, CHR 0x8F, CHR 0x83] @ '' For exercise: Aim for 150 minutes of moderate activity or 75 minutes of vigorous activity weekly. Mix cardio (walking, cycling) and strength training. Start slowly, warm up properly, and listen to your body.''"

definition reply_diabetes :: string where
  "reply_diabetes =
     [CHR 0xF0, CHR 0x9F, CHR 0xA9, CHR 0xBA] @ '' For diabetes management: Monitor blood sugar regularly, follow prescribed medication, eat balanced meals with controlled carbs, exercise regularly, maintain healthy weight. Regular check-ups are crucial.''"

definition reply_blood_pressure :: string where
  "reply_blood_pressure =
     [CHR 0xE2, CHR 0x9D, CHR 0xA4, CHR 0xEF, CHR 0xB8, CHR 0x8F] @ '' For blood pressure: Reduce sodium intake, eat potassium-rich foods (bananas, spinach), exercise regularly, maintain healthy weight, limit alcohol, manage stress. Monitor regularly and follow doctor'' @ [CHR 0x27] @ ''s advice.''"

definition reply_weight :: string where
  "reply_weight =
     [CHR 0xE2, CHR 0x9A, CHR 0x96, CHR 0xEF, CHR 0xB8, CHR 0x8F] @ '' For healthy weight: Create moderate calorie deficit (500 cal/day for 1 lb/week loss), eat protein-rich foods, increase fiber intake, stay hydrated, get adequate sleep, combine diet with exercise.''"

definition reply_anxiety :: string where
  "reply_anxiety =
     [CHR 0xF0, CHR 0x9F, CHR 0x98, CHR 0xB0] @ '' For anxiety: Practice mindfulness and deep breathing, maintain regular exercise routine, limit caffeine and alcohol, establish healthy sleep habits, consider talking to a mental health professional.''"

definition reply_greeting :: string where
  "reply_greeting =
     [CHR 0xF0, CHR 0x9F, CHR 0x91, CHR 0x8B] @ '' Hello! I'' @ [CHR 0x27] @ ''m your AI Health Assistant. I can help you with questions about common health issues like fever, headache, cold, diet, exercise, stress, sleep, and more. What would you like to know?''"

definition reply_appointment :: string where
  "reply_appointment =
     [CHR 0xF0, CHR 0x9F, CHR 0x93, CHR 0x85] @ '' To book an appointment, please go to the '' @ [CHR 0x27] @ ''Appointments'' @ [CHR 0x27] @ '' tab where you can select a doctor, date, and time slot. Our doctors are available from 9 AM to 5 PM, Monday to Saturday.''"

definition reply_medication :: string where
  "reply_medication =
     [CHR 0xF0, CHR 0x9F, CHR 0x92, CHR 0x8A] @ '' For medication reminders, visit the '' @ [CHR 0x27] @ ''Medications'' @ [CHR 0x27] @ '' tab where you can add your prescriptions and set up automatic reminders. Never miss a dose!''"

definition reply_generic :: string where
  "reply_generic =
     [CHR 0xF0, CHR 0x9F, CHR 0xA4, CHR 0x94] @ '' I'' @ [CHR 0x27] @ ''m not sure about that specific question. For personalized medical advice, please consult a qualified healthcare professional. You can also book an appointment with our doctors through the Appointments tab. Try asking about: fever, headache, cold, diet, exercise, stress, or sleep.''"

text \<open>The reply of the \<open>except\<close> branch of \<open>chat\<close>. With a request body whose values are
  strings nothing in \<open>chat\<close> raises, so \<open>chat\<close> below does not use it.\<close>

definition reply_error :: string where
  "reply_error =
     [CHR 0xF0, CHR 0x9F, CHR 0x98, CHR 0x93] @ '' Sorry, I encountered an error. Please try again or contact support if the issue persists.''"

text \<open>The dictionary \<open>responses\<close> in its insertion order, which is the order in which
  \<open>responses.items()\<close> yields it.\<close>

definition responses :: "(string \<times> string) list" where
  "responses =
     [(''fever'', reply_fever),
      (''headache'', reply_headache),
      (''cold'', reply_cold),
      (''cough'', reply_cough),
      (''stomach'', reply_stomach),
      (''pain'', reply_pain),
      (''stress'', reply_stress),
      (''sleep'', reply_sleep),
      (''diet'', reply_diet),
      (''exercise'', reply_exercise),
      (''diabetes'', reply_diabetes),
      (''blood pressure'', reply_blood_pressure),
      (''weight'', reply_weight),
      (''anxiety'', reply_anxiety)]"

text \<open>The loop \<open>for keyword, response in responses.items()\<close> with its \<open>break\<close>;
  the result is the variable \<open>reply\<close> after the loop.\<close>

fun first_match :: "(string \<times> string) list \<Rightarrow> string \<Rightarrow> string option" where
  "first_match [] q = None"
| "first_match ((keyword, response) # rest) q =
     (if contains q keyword then Some response else first_match rest q)"

text \<open>The branches taken when \<open>not reply\<close>.\<close>

definition fallback :: "string \<Rightarrow> string" where
  "fallback q =
     (if contains q ''hello'' \<or> contains q ''hi'' \<or> contains q ''hey'' then reply_greeting
      else if contains q ''appointment'' then reply_appointment
      else if contains q ''medication'' \<or> contains q ''medicine'' then reply_medication
      else reply_generic)"

text \<open>The body of \<open>chat\<close> from \<open>q\<close> on; \<open>not reply\<close> holds for \<open>None\<close> and for the
  empty string.\<close>

definition chat_reply :: "string \<Rightarrow> string" where
  "chat_reply q =
     (case first_match responses q of
        None \<Rightarrow> fallback q
      | Some reply \<Rightarrow> if reply = [] then fallback q else reply)"

text \<open>\<open>chat\<close>: the request body is a dictionary from keys to strings, and
  \<open>data.get("question", "")\<close> reads it.\<close>

type_synonym json_dict = "string \<rightharpoonup> string"

definition get_default :: "json_dict \<Rightarrow> string \<Rightarrow> string \<Rightarrow> string" where
  "get_default data k d = (case data k of None \<Rightarrow> d | Some v \<Rightarrow> v)"

definition chat :: "json_dict \<Rightarrow> string" where
  "chat data = chat_reply (py_lower (get_default data ''question'' []))"

section \<open>JSON values\<close>

text \<open>What \<open>jsonify\<close> is given: objects keep the order in which the source writes their
  keys. Request bodies are dictionaries whose values are strings (\<open>json_dict\<close>).\<close>

datatype json = JNull | JNum nat | JInt int | JReal real | JStr string | JArr "json list"
  | JObj "(string \<times> json) list"

definition error_msg :: "string \<Rightarrow> json" where
  "error_msg m = JObj [(''status'', JStr ''error''), (''msg'', JStr m)]"

definition success_msg :: "string \<Rightarrow> json" where
  "success_msg m = JObj [(''status'', JStr ''success''), (''msg'', JStr m)]"

text \<open>A response reports an error when its \<open>status\<close> field is \<open>"error"\<close>.\<close>

definition is_error :: "json \<Rightarrow> bool" where
  "is_error r = (case r of JObj kvs \<Rightarrow> map_of kvs ''status'' = Some (JStr ''error'') | _ \<Rightarrow> False)"

text \<open>\<open>data[k]\<close>. In the source every subscript of the request body comes after a test
  that \<open>data.get(k)\<close> is truthy, so the key is there; the default is never read.\<close>

definition item :: "json_dict \<Rightarrow> string \<Rightarrow> string" where
  "item data k = (case data k of None \<Rightarrow> [] | Some v \<Rightarrow> v)"

text \<open>\<open>str(n)\<close> for a non-negative integer, as the f-strings format it.\<close>

definition digit_char :: "nat \<Rightarrow> char" where
  "digit_char n = char_of (48 + n)"

fun str_nat :: "nat \<Rightarrow> string" where
  "str_nat n = (if n < 10 then [digit_char n] else str_nat (n div 10) @ [digit_char (n mod 10)])"

declare str_nat.simps [simp del]

section \<open>The store\<close>

text \<open>
  What a column declared \<open>REAL\<close> or \<open>INTEGER\<close> holds. The request gives text, and SQLite
  converts a text that reads as a number when it stores it in such a column (\<open>'175'\<close>
  goes into a \<open>REAL\<close> column as \<open>175.0\<close>) and keeps any other text. What SQLite stores
  for a given text is left open: the routes that write such a column take the conversion
  as a parameter (\<open>to_real\<close> for \<open>height\<close> and \<open>weight\<close>, \<open>to_integer\<close> for \<open>duration\<close>).
\<close>

datatype sqlval = SText string | SInt int | SReal real

type_synonym affinity = "string \<Rightarrow> sqlval"

text \<open>\<open>jsonify\<close> of such a value.\<close>

definition sql_json :: "sqlval \<Rightarrow> json" where
  "sql_json v = (case v of SText s \<Rightarrow> JStr s | SInt i \<Rightarrow> JInt i | SReal x \<Rightarrow> JReal x)"

text \<open>The five tables of \<open>init_db\<close>, a row as a record of its columns, a table as the
  list of its rows in rowid order. Columns declared without \<open>NOT NULL\<close> that the code
  fills from \<open>data.get(k)\<close> hold \<open>None\<close> for SQL \<open>NULL\<close>. Timestamps are the text that
  \<open>CURRENT_TIMESTAMP\<close> gives; each request is given the current one as \<open>now\<close>.\<close>

record user_row =
  u_id :: nat
  u_name :: string
  u_email :: string
  u_password :: string
  u_age :: string
  u_bio :: string
  u_created_at :: string

record appointment_row =
  a_id :: nat
  a_user_email :: string
  a_doctor :: string
  a_date :: string
  a_time :: string
  a_booked_at :: string

record medication_row =
  m_id :: nat
  m_user_email :: string
  m_name :: string
  m_dosage :: string
  m_frequency :: string
  m_duration :: sqlval
  m_created_at :: string

record health_row =
  h_id :: nat
  h_user_email :: string
  h_blood_group :: "string option"
  h_height :: "sqlval option"
  h_weight :: "sqlval option"
  h_emergency_name :: "string option"
  h_emergency_relation :: "string option"
  h_emergency_phone :: "string option"
  h_medical_conditions :: "string option"
  h_allergies :: "string option"
  h_updated_at :: string

record log_row =
  l_id :: nat
  l_user_email :: string
  l_action :: string
  l_details :: "string option"
  l_timestamp :: string

text \<open>The database file: the tables, and for each the largest rowid handed out so far,
  which \<open>AUTOINCREMENT\<close> keeps in \<open>sqlite_sequence\<close>.\<close>

record db =
  users :: "user_row list"
  users_seq :: nat
  appointments :: "appointment_row list"
  appointments_seq :: nat
  medications :: "medication_row list"
  medications_seq :: nat
  health_records :: "health_row list"
  health_records_seq :: nat
  activity_logs :: "log_row list"
  activity_logs_seq :: nat

definition empty_db :: db where
  "empty_db = \<lparr>users = [], users_seq = 0, appointments = [], appointments_seq = 0,
     medications = [], medications_seq = 0, health_records = [], health_records_seq = 0,
     activity_logs = [], activity_logs_seq = 0\<rparr>"

text \<open>The rowid of a new row: one more than the largest rowid the table has ever had.\<close>

definition autoincrement :: "nat \<Rightarrow> nat list \<Rightarrow> nat" where
  "autoincrement seq ids = Suc (fold max ids seq)"

section \<open>Connections and transactions\<close>

text \<open>
  \<open>sqlite3.connect\<close> gives a connection that sees the committed database (\<open>store\<close>) and
  keeps the writes of its open transaction apart (\<open>txn\<close>) until \<open>commit\<close>. Foreign key
  enforcement is a setting of the connection, off when the connection is opened; the
  source never issues \<open>PRAGMA foreign_keys\<close>.

  The database can refuse any statement and the commit (locked or unwritable file): \<open>faults\<close>
  lists, for the statements to come, whether each is refused. A refused or failing
  statement changes nothing.
\<close>

datatype exn = OperationalError | IntegrityError

record conn =
  store :: db
  txn :: db
  foreign_keys :: bool
  faults :: "bool list"

type_synonym 'a io = "conn \<Rightarrow> (exn + 'a) \<times> conn"

definition connect :: "db \<Rightarrow> bool list \<Rightarrow> conn" where
  "connect d fs = \<lparr>store = d, txn = d, foreign_keys = False, faults = fs\<rparr>"

definition commit :: "unit io" where
  "commit c =
     (case faults c of
        True # fs \<Rightarrow> (Inl OperationalError, c\<lparr>faults := fs\<rparr>)
      | _ \<Rightarrow> (Inr (), c\<lparr>store := txn c, faults := tl (faults c)\<rparr>))"

definition rollback :: "conn \<Rightarrow> conn" where
  "rollback c = c\<lparr>txn := store c\<rparr>"

text \<open>\<open>conn.close()\<close>: what is left is the committed database.\<close>

definition close :: "conn \<Rightarrow> db" where
  "close c = store c"

definition ret :: "'a \<Rightarrow> 'a io" where
  "ret v c = (Inr v, c)"

definition bind_io :: "'a io \<Rightarrow> ('a \<Rightarrow> 'b io) \<Rightarrow> 'b io" where
  "bind_io m f c = (case m c of (Inl e, c') \<Rightarrow> (Inl e, c') | (Inr v, c') \<Rightarrow> f v c')"

text \<open>\<open>cursor.execute\<close> of a statement. A statement is a function of the foreign key
  setting and the database as the transaction sees it; it gives its result (the rows, or
  the row count) and the database after it, or raises.\<close>

type_synonym 'a stmt = "bool \<Rightarrow> db \<Rightarrow> exn + ('a \<times> db)"

definition execute :: "'a stmt \<Rightarrow> 'a io" where
  "execute s c =
     (case faults c of
        True # fs \<Rightarrow> (Inl OperationalError, c\<lparr>faults := fs\<rparr>)
      | _ \<Rightarrow>
        (case s (foreign_keys c) (txn c) of
           Inl e \<Rightarrow> (Inl e, c\<lparr>faults := tl (faults c)\<rparr>)
         | Inr (v, d) \<Rightarrow> (Inr v, c\<lparr>txn := d, faults := tl (faults c)\<rparr>)))"

text \<open>\<open>cursor.fetchone()\<close> on the rows of a query.\<close>

definition fetchone :: "'a list \<Rightarrow> 'a option" where
  "fetchone rows = (case rows of [] \<Rightarrow> None | r # _ \<Rightarrow> Some r)"

text \<open>
  \<open>get_db\<close>, applied to the body of the \<open>with\<close> block. The body ends by falling off the
  block or by a \<open>return\<close> inside it (both resume the generator after \<open>yield\<close>, so both
  commit), or by an exception (the generator rolls back and raises it again). The
  connection is closed on every path.
\<close>

definition get_db :: "'a io \<Rightarrow> bool list \<Rightarrow> db \<Rightarrow> (exn + 'a) \<times> db" where
  "get_db body fs d =
     (case body (connect d fs) of
        (Inr v, c) \<Rightarrow>
          (case commit c of
             (Inr _, c') \<Rightarrow> (Inr v, close c')
           | (Inl e, c') \<Rightarrow> (Inl e, close (rollback c')))
      | (Inl e, c) \<Rightarrow> (Inl e, close (rollback c)))"

text \<open>The \<open>try\<close> ... \<open>except Exception\<close> around every route: the exception becomes the
  given response.\<close>

definition except :: "json \<Rightarrow> (exn + json) \<times> db \<Rightarrow> json \<times> db" where
  "except r res = (case res of (Inl e, d) \<Rightarrow> (r, d) | (Inr v, d) \<Rightarrow> (v, d))"

definition server_error :: json where
  "server_error = error_msg ''Server error occurred''"

section \<open>SQL statements\<close>

text \<open>Each statement of the source as a function on the database. \<open>WHERE LOWER(col) = ?\<close>
  compares \<open>sql_lower\<close> of the stored text with the parameter; \<open>WHERE col = ?\<close> compares
  the texts as they are. A query without \<open>ORDER BY\<close> gives its rows in table order.\<close>

definition select_users_by_email :: "string \<Rightarrow> user_row list stmt" where
  "select_users_by_email email fk d =
     Inr (filter (\<lambda>u. sql_lower (u_email u) = email) (users d), d)"

text \<open>\<open>INSERT INTO users (name, email, password)\<close>; \<open>email\<close> is \<open>UNIQUE\<close>, \<open>age\<close> and
  \<open>bio\<close> take their default.\<close>

definition insert_user :: "string \<Rightarrow> string \<Rightarrow> string \<Rightarrow> string \<Rightarrow> unit stmt" where
  "insert_user name email password now fk d =
     (if \<exists>u \<in> set (users d). u_email u = email then Inl IntegrityError
      else
        let i = autoincrement (users_seq d) (map u_id (users d)) in
        Inr ((), d\<lparr>users := users d @
                     [\<lparr>u_id = i, u_name = name, u_email = email, u_password = password,
                       u_age = [], u_bio = [], u_created_at = now\<rparr>],
                   users_seq := i\<rparr>))"

text \<open>\<open>INSERT INTO activity_logs\<close>, with \<open>details\<close> (\<open>None\<close> when the statement does not
  name the column).\<close>

definition insert_log :: "string \<Rightarrow> string \<Rightarrow> string option \<Rightarrow> string \<Rightarrow> unit stmt" where
  "insert_log email action details now fk d =
     (let i = autoincrement (activity_logs_seq d) (map l_id (activity_logs d)) in
      Inr ((), d\<lparr>activity_logs := activity_logs d @
                   [\<lparr>l_id = i, l_user_email = email, l_action = action, l_details = details,
                     l_timestamp = now\<rparr>],
                 activity_logs_seq := i\<rparr>))"

text \<open>\<open>UPDATE users SET name = ?, age = ?, bio = ? WHERE LOWER(email) = ?\<close>; the result
  is \<open>cursor.rowcount\<close>.\<close>

definition update_user :: "string \<Rightarrow> string \<Rightarrow> string \<Rightarrow> string \<Rightarrow> nat stmt" where
  "update_user name age bio email fk d =
     Inr (length (filter (\<lambda>u. sql_lower (u_email u) = email) (users d)),
          d\<lparr>users := map (\<lambda>u. if sql_lower (u_email u) = email
                                then u\<lparr>u_name := name, u_age := age, u_bio := bio\<rparr> else u)
                         (users d)\<rparr>)"

text \<open>\<open>SELECT id FROM appointments WHERE doctor = ? AND date = ? AND time = ?\<close>.\<close>

definition select_slot :: "string \<Rightarrow> string \<Rightarrow> string \<Rightarrow> appointment_row list stmt" where
  "select_slot doctor date time fk d =
     Inr (filter (\<lambda>a. a_doctor a = doctor \<and> a_date a = date \<and> a_time a = time)
            (appointments d), d)"

definition insert_appointment ::
  "string \<Rightarrow> string \<Rightarrow> string \<Rightarrow> string \<Rightarrow> string \<Rightarrow> unit stmt" where
  "insert_appointment email doctor date time now fk d =
     (let i = autoincrement (appointments_seq d) (map a_id (appointments d)) in
      Inr ((), d\<lparr>appointments := appointments d @
                   [\<lparr>a_id = i, a_user_email = email, a_doctor = doctor, a_date = date,
                     a_time = time, a_booked_at = now\<rparr>],
                 appointments_seq := i\<rparr>))"

text \<open>\<open>ORDER BY ... DESC\<close>: the rows by descending key, where \<open>before r s\<close> says that the
  key of \<open>r\<close> is at least the key of \<open>s\<close>. Rows of equal key keep their table order.\<close>

fun insert_desc :: "('a \<Rightarrow> 'a \<Rightarrow> bool) \<Rightarrow> 'a \<Rightarrow> 'a list \<Rightarrow> 'a list" where
  "insert_desc before r [] = [r]"
| "insert_desc before r (s # rows) =
     (if before r s then r # s # rows else s # insert_desc before r rows)"

fun order_by_desc :: "('a \<Rightarrow> 'a \<Rightarrow> bool) \<Rightarrow> 'a list \<Rightarrow> 'a list" where
  "order_by_desc before [] = []"
| "order_by_desc before (r # rows) = insert_desc before r (order_by_desc before rows)"

text \<open>The key of \<open>ORDER BY date DESC, time DESC\<close>. Both columns are text, compared
  byte by byte, a proper prefix before the longer text: the order of \<open>string\<close>.\<close>

definition date_time_desc :: "appointment_row \<Rightarrow> appointment_row \<Rightarrow> bool" where
  "date_time_desc r s = (a_date s < a_date r \<or> (a_date s = a_date r \<and> a_time s \<le> a_time r))"

text \<open>\<open>SELECT id, doctor, date, time, booked_at FROM appointments WHERE LOWER(user_email) = ?
  ORDER BY date DESC, time DESC\<close>.\<close>

definition select_appointments :: "string \<Rightarrow> appointment_row list stmt" where
  "select_appointments email fk d =
     Inr (order_by_desc date_time_desc
            (filter (\<lambda>a. sql_lower (a_user_email a) = email) (appointments d)), d)"

text \<open>\<open>DELETE FROM appointments WHERE id = ? AND LOWER(user_email) = ?\<close>; the result is
  \<open>cursor.rowcount\<close>.\<close>

definition delete_appointment_row :: "nat \<Rightarrow> string \<Rightarrow> nat stmt" where
  "delete_appointment_row i email fk d =
     Inr (length (filter (\<lambda>a. a_id a = i \<and> sql_lower (a_user_email a) = email) (appointments d)),
          d\<lparr>appointments :=
              filter (\<lambda>a. \<not> (a_id a = i \<and> sql_lower (a_user_email a) = email)) (appointments d)\<rparr>)"

text \<open>\<open>INSERT INTO medications\<close>; \<open>duration\<close> is an \<open>INTEGER\<close> column.\<close>

definition insert_medication ::
  "affinity \<Rightarrow> string \<Rightarrow> string \<Rightarrow> string \<Rightarrow> string \<Rightarrow> string \<Rightarrow> string \<Rightarrow> unit stmt"
  where
  "insert_medication to_integer email name dosage frequency duration now fk d =
     (let i = autoincrement (medications_seq d) (map m_id (medications d)) in
      Inr ((), d\<lparr>medications := medications d @
                   [\<lparr>m_id = i, m_user_email = email, m_name = name, m_dosage = dosage,
                     m_frequency = frequency, m_duration = to_integer duration,
                     m_created_at = now\<rparr>],
                 medications_seq := i\<rparr>))"

definition created_at_desc :: "medication_row \<Rightarrow> medication_row \<Rightarrow> bool" where
  "created_at_desc r s = (m_created_at s \<le> m_created_at r)"

text \<open>\<open>SELECT id, name, dosage, frequency, duration, created_at FROM medications
  WHERE LOWER(user_email) = ? ORDER BY created_at DESC\<close>.\<close>

definition select_medications :: "string \<Rightarrow> medication_row list stmt" where
  "select_medications email fk d =
     Inr (order_by_desc created_at_desc
            (filter (\<lambda>m. sql_lower (m_user_email m) = email) (medications d)), d)"

definition delete_medication_row :: "nat \<Rightarrow> string \<Rightarrow> nat stmt" where
  "delete_medication_row i email fk d =
     Inr (length (filter (\<lambda>m. m_id m = i \<and> sql_lower (m_user_email m) = email) (medications d)),
          d\<lparr>medications :=
              filter (\<lambda>m. \<not> (m_id m = i \<and> sql_lower (m_user_email m) = email)) (medications d)\<rparr>)"

text \<open>\<open>SELECT ... FROM health_records WHERE LOWER(user_email) = ?\<close>.\<close>

definition select_health_records :: "string \<Rightarrow> health_row list stmt" where
  "select_health_records email fk d =
     Inr (filter (\<lambda>h. sql_lower (h_user_email h) = email) (health_records d), d)"

text \<open>The eight optional columns as \<open>save_health_records\<close> reads them from the request
  with \<open>data.get\<close>; \<open>height\<close> and \<open>weight\<close> are \<open>REAL\<close> columns, the others are text.\<close>

definition set_health_values ::
  "affinity \<Rightarrow> json_dict \<Rightarrow> string \<Rightarrow> health_row \<Rightarrow> health_row" where
  "set_health_values to_real data now h =
     h\<lparr>h_blood_group := data ''blood_group'',
       h_height := map_option to_real (data ''height''),
       h_weight := map_option to_real (data ''weight''),
       h_emergency_name := data ''emergency_name'',
       h_emergency_relation := data ''emergency_relation'',
       h_emergency_phone := data ''emergency_phone'',
       h_medical_conditions := data ''medical_conditions'', h_allergies := data ''allergies'',
       h_updated_at := now\<rparr>"

text \<open>\<open>UPDATE health_records SET ... , updated_at = CURRENT_TIMESTAMP
  WHERE LOWER(user_email) = ?\<close>.\<close>

definition update_health_record ::
  "affinity \<Rightarrow> json_dict \<Rightarrow> string \<Rightarrow> string \<Rightarrow> unit stmt" where
  "update_health_record to_real data email now fk d =
     Inr ((), d\<lparr>health_records :=
                 map (\<lambda>h. if sql_lower (h_user_email h) = email then set_health_values to_real data now h
                          else h) (health_records d)\<rparr>)"

text \<open>\<open>INSERT INTO health_records\<close>; \<open>user_email\<close> is \<open>UNIQUE\<close>.\<close>

definition insert_health_record ::
  "affinity \<Rightarrow> string \<Rightarrow> json_dict \<Rightarrow> string \<Rightarrow> unit stmt" where
  "insert_health_record to_real email data now fk d =
     (if \<exists>h \<in> set (health_records d). h_user_email h = email then Inl IntegrityError
      else
        let i = autoincrement (health_records_seq d) (map h_id (health_records d)) in
        Inr ((), d\<lparr>health_records := health_records d @
                     [\<lparr>h_id = i, h_user_email = email,
                       h_blood_group = data ''blood_group'',
                       h_height = map_option to_real (data ''height''),
                       h_weight = map_option to_real (data ''weight''),
                       h_emergency_name = data ''emergency_name'',
                       h_emergency_relation = data ''emergency_relation'',
                       h_emergency_phone = data ''emergency_phone'',
                       h_medical_conditions = data ''medical_conditions'',
                       h_allergies = data ''allergies'', h_updated_at = now\<rparr>],
                   health_records_seq := i\<rparr>))"


section \<open>The routes\<close>

text \<open>Every route takes the refusals to come (\<open>fs\<close>), the request body (\<open>data\<close>) and the
  database, and gives the response and the database after the request; the routes that
  write a timestamp take \<open>now\<close>, \<open>signup\<close> and \<open>login\<close> take the hash function
  (\<open>hash_password\<close>, SHA-256 in hexadecimal) as \<open>H\<close>, and the routes that write a \<open>REAL\<close> or
  \<open>INTEGER\<close> column take SQLite's conversion for it.\<close>

definition signup_body :: "(string \<Rightarrow> string) \<Rightarrow> string \<Rightarrow> json_dict \<Rightarrow> string \<Rightarrow> json io" where
  "signup_body H now data email =
     bind_io (execute (select_users_by_email email)) (\<lambda>rows.
       if fetchone rows \<noteq> None then ret (error_msg ''Email already registered'')
       else
         let hashed_password = H (item data ''password'') in
         bind_io (execute (insert_user (strip (item data ''name'')) email hashed_password now))
           (\<lambda>_.
         bind_io (execute (insert_log email ''signup''
                    (Some (''New user registered: '' @ item data ''name'')) now)) (\<lambda>_.
         ret (success_msg ''Account created successfully! Please login.''))))"

definition signup ::
  "(string \<Rightarrow> string) \<Rightarrow> bool list \<Rightarrow> string \<Rightarrow> json_dict \<Rightarrow> db \<Rightarrow> json \<times> db" where
  "signup H fs now data d =
     (if \<not> truthy (data ''name'') \<or> \<not> truthy (data ''email'') \<or> \<not> truthy (data ''password'')
      then (error_msg ''All fields are required'', d)
      else
        let email = py_lower (strip (item data ''email'')) in
        if \<not> contains email ''@'' \<or> \<not> contains (split CHR ''@'' email ! 1) ''.''
        then (error_msg ''Invalid email format'', d)
        else if length (item data ''password'') < 6
        then (error_msg ''Password must be at least 6 characters'', d)
        else except server_error (get_db (signup_body H now data email) fs d))"

text \<open>The dictionary \<open>user_data\<close> of \<open>login\<close>.\<close>

definition user_data :: "user_row \<Rightarrow> json" where
  "user_data user =
     JObj [(''id'', JNum (u_id user)), (''name'', JStr (u_name user)),
           (''email'', JStr (u_email user)), (''age'', JStr (u_age user)),
           (''bio'', JStr (u_bio user))]"

definition login_body :: "(string \<Rightarrow> string) \<Rightarrow> string \<Rightarrow> json_dict \<Rightarrow> string \<Rightarrow> json io" where
  "login_body H now data email =
     bind_io (execute (select_users_by_email email)) (\<lambda>rows.
       case fetchone rows of
         None \<Rightarrow> ret (error_msg ''Email not found'')
       | Some user \<Rightarrow>
           let hashed_password = H (item data ''password'') in
           if u_password user \<noteq> hashed_password then ret (error_msg ''Invalid password'')
           else
             bind_io (execute (insert_log email ''login'' None now)) (\<lambda>_.
             ret (JObj [(''status'', JStr ''success''), (''user'', user_data user)])))"

definition login ::
  "(string \<Rightarrow> string) \<Rightarrow> bool list \<Rightarrow> string \<Rightarrow> json_dict \<Rightarrow> db \<Rightarrow> json \<times> db" where
  "login H fs now data d =
     (if \<not> truthy (data ''email'') \<or> \<not> truthy (data ''password'')
      then (error_msg ''Email and password required'', d)
      else
        let email = py_lower (strip (item data ''email'')) in
        except server_error (get_db (login_body H now data email) fs d))"

definition save_profile_body :: "string \<Rightarrow> json_dict \<Rightarrow> json io" where
  "save_profile_body now data =
     bind_io (execute (update_user (get_default data ''name'' []) (get_default data ''age'' [])
                (get_default data ''bio'' []) (py_lower (item data ''email'')))) (\<lambda>rowcount.
       if rowcount = 0 then ret (error_msg ''User not found'')
       else
         bind_io (execute (insert_log (py_lower (item data ''email'')) ''profile_update'' None now))
           (\<lambda>_.
         ret (success_msg ''Profile updated successfully'')))"

definition save_profile :: "bool list \<Rightarrow> string \<Rightarrow> json_dict \<Rightarrow> db \<Rightarrow> json \<times> db" where
  "save_profile fs now data d =
     (if \<not> truthy (data ''email'') then (error_msg ''Email required'', d)
      else except server_error (get_db (save_profile_body now data) fs d))"

definition add_appointment_body :: "string \<Rightarrow> json_dict \<Rightarrow> json io" where
  "add_appointment_body now data =
     bind_io (execute (select_slot (item data ''doctor'') (item data ''date'') (item data ''time'')))
       (\<lambda>rows.
       if fetchone rows \<noteq> None
       then ret (error_msg ''This time slot is already booked. Please choose another time.'')
       else
         bind_io (execute (insert_appointment (py_lower (item data ''email''))
                    (item data ''doctor'') (item data ''date'') (item data ''time'') now)) (\<lambda>_.
         bind_io (execute (insert_log (py_lower (item data ''email'')) ''appointment_booked''
                    (Some (item data ''doctor'' @ '' on '' @ item data ''date'' @ '' at ''
                           @ item data ''time'')) now)) (\<lambda>_.
         ret (success_msg ''Appointment booked successfully!''))))"

definition add_appointment :: "bool list \<Rightarrow> string \<Rightarrow> json_dict \<Rightarrow> db \<Rightarrow> json \<times> db" where
  "add_appointment fs now data d =
     (if \<not> list_all (\<lambda>field. truthy (data field)) [''email'', ''doctor'', ''date'', ''time'']
      then (error_msg ''All fields required'', d)
      else except server_error (get_db (add_appointment_body now data) fs d))"

text \<open>\<open>dict(row)\<close> for a row of \<open>select_appointments\<close>.\<close>

definition appointment_dict :: "appointment_row \<Rightarrow> json" where
  "appointment_dict a =
     JObj [(''id'', JNum (a_id a)), (''doctor'', JStr (a_doctor a)), (''date'', JStr (a_date a)),
           (''time'', JStr (a_time a)), (''booked_at'', JStr (a_booked_at a))]"

definition get_appointments :: "bool list \<Rightarrow> json_dict \<Rightarrow> db \<Rightarrow> json \<times> db" where
  "get_appointments fs data d =
     (if \<not> truthy (data ''email'') then (JArr [], d)
      else except (JArr [])
             (get_db (bind_io (execute (select_appointments (py_lower (item data ''email''))))
                        (\<lambda>rows. ret (JArr (map appointment_dict rows)))) fs d))"

definition delete_appointment_body :: "string \<Rightarrow> nat \<Rightarrow> string \<Rightarrow> json io" where
  "delete_appointment_body now appointment_id email =
     bind_io (execute (delete_appointment_row appointment_id email)) (\<lambda>rowcount.
       if rowcount = 0 then ret (error_msg ''Appointment not found'')
       else
         bind_io (execute (insert_log email ''appointment_cancelled''
                    (Some (''Appointment ID: '' @ str_nat appointment_id)) now)) (\<lambda>_.
         ret (success_msg ''Appointment cancelled'')))"

definition delete_appointment ::
  "bool list \<Rightarrow> string \<Rightarrow> nat \<Rightarrow> json_dict \<Rightarrow> db \<Rightarrow> json \<times> db" where
  "delete_appointment fs now appointment_id data d =
     (let email = py_lower (get_default data ''email'' []) in
      except server_error (get_db (delete_appointment_body now appointment_id email) fs d))"

definition add_medication_body :: "affinity \<Rightarrow> string \<Rightarrow> json_dict \<Rightarrow> json io" where
  "add_medication_body to_integer now data =
     bind_io (execute (insert_medication to_integer (py_lower (item data ''email''))
                (item data ''name'') (item data ''dosage'') (item data ''frequency'')
                (item data ''duration'') now))
       (\<lambda>_.
     bind_io (execute (insert_log (py_lower (item data ''email'')) ''medication_added''
                (Some (item data ''name'' @ '' - '' @ item data ''dosage'')) now)) (\<lambda>_.
     ret (success_msg ''Medication added successfully!'')))"

definition add_medication ::
  "affinity \<Rightarrow> bool list \<Rightarrow> string \<Rightarrow> json_dict \<Rightarrow> db \<Rightarrow> json \<times> db" where
  "add_medication to_integer fs now data d =
     (if \<not> list_all (\<lambda>field. truthy (data field))
              [''email'', ''name'', ''dosage'', ''frequency'', ''duration'']
      then (error_msg ''All fields required'', d)
      else except server_error (get_db (add_medication_body to_integer now data) fs d))"

definition medication_dict :: "medication_row \<Rightarrow> json" where
  "medication_dict m =
     JObj [(''id'', JNum (m_id m)), (''name'', JStr (m_name m)), (''dosage'', JStr (m_dosage m)),
           (''frequency'', JStr (m_frequency m)), (''duration'', sql_json (m_duration m)),
           (''created_at'', JStr (m_created_at m))]"

definition get_medications :: "bool list \<Rightarrow> json_dict \<Rightarrow> db \<Rightarrow> json \<times> db" where
  "get_medications fs data d =
     (if \<not> truthy (data ''email'') then (JArr [], d)
      else except (JArr [])
             (get_db (bind_io (execute (select_medications (py_lower (item data ''email''))))
                        (\<lambda>rows. ret (JArr (map medication_dict rows)))) fs d))"

definition delete_medication_body :: "nat \<Rightarrow> string \<Rightarrow> json io" where
  "delete_medication_body medication_id email =
     bind_io (execute (delete_medication_row medication_id email)) (\<lambda>rowcount.
       if rowcount = 0 then ret (error_msg ''Medication not found'')
       else ret (success_msg ''Medication deleted''))"

definition delete_medication :: "bool list \<Rightarrow> nat \<Rightarrow> json_dict \<Rightarrow> db \<Rightarrow> json \<times> db" where
  "delete_medication fs medication_id data d =
     (let email = py_lower (get_default data ''email'' []) in
      except server_error (get_db (delete_medication_body medication_id email) fs d))"

definition save_health_records_body :: "affinity \<Rightarrow> string \<Rightarrow> json_dict \<Rightarrow> json io" where
  "save_health_records_body to_real now data =
     bind_io (execute (select_health_records (py_lower (item data ''email'')))) (\<lambda>rows.
     bind_io (if fetchone rows \<noteq> None
              then execute (update_health_record to_real data (py_lower (item data ''email'')) now)
              else execute (insert_health_record to_real (py_lower (item data ''email'')) data
                              now))
       (\<lambda>_.
     ret (success_msg ''Health records saved'')))"

definition save_health_records ::
  "affinity \<Rightarrow> bool list \<Rightarrow> string \<Rightarrow> json_dict \<Rightarrow> db \<Rightarrow> json \<times> db" where
  "save_health_records to_real fs now data d =
     (if \<not> truthy (data ''email'') then (error_msg ''Email required'', d)
      else except server_error (get_db (save_health_records_body to_real now data) fs d))"

definition opt_json :: "string option \<Rightarrow> json" where
  "opt_json v = (case v of None \<Rightarrow> JNull | Some s \<Rightarrow> JStr s)"

definition opt_sql_json :: "sqlval option \<Rightarrow> json" where
  "opt_sql_json v = (case v of None \<Rightarrow> JNull | Some x \<Rightarrow> sql_json x)"

text \<open>\<open>dict(record)\<close> for a row of \<open>SELECT * FROM health_records\<close>.\<close>

definition health_dict :: "health_row \<Rightarrow> json" where
  "health_dict h =
     JObj [(''id'', JNum (h_id h)), (''user_email'', JStr (h_user_email h)),
           (''blood_group'', opt_json (h_blood_group h)),
           (''height'', opt_sql_json (h_height h)), (''weight'', opt_sql_json (h_weight h)),
           (''emergency_name'', opt_json (h_emergency_name h)),
           (''emergency_relation'', opt_json (h_emergency_relation h)),
           (''emergency_phone'', opt_json (h_emergency_phone h)),
           (''medical_conditions'', opt_json (h_medical_conditions h)),
           (''allergies'', opt_json (h_allergies h)), (''updated_at'', JStr (h_updated_at h))]"

definition get_health_records :: "bool list \<Rightarrow> json_dict \<Rightarrow> db \<Rightarrow> json \<times> db" where
  "get_health_records fs data d =
     (if \<not> truthy (data ''email'') then (JObj [], d)
      else except (JObj [])
             (get_db (bind_io (execute (select_health_records (py_lower (item data ''email''))))
                        (\<lambda>rows. ret (case fetchone rows of None \<Rightarrow> JObj []
                                      | Some record \<Rightarrow> health_dict record))) fs d))"

section \<open>Auxiliary notions for the properties\<close>

text \<open>The checks of \<open>signup\<close> that come before the database is touched.\<close>

definition signup_valid :: "json_dict \<Rightarrow> bool" where
  "signup_valid data =
     (truthy (data ''name'') \<and> truthy (data ''email'') \<and> truthy (data ''password'')
      \<and> contains (py_lower (strip (item data ''email''))) ''@''
      \<and> contains (split CHR ''@'' (py_lower (strip (item data ''email''))) ! 1) ''.''
      \<and> 6 \<le> length (item data ''password''))"

text \<open>The row that a successful \<open>signup\<close> inserts.\<close>

definition new_user :: "(string \<Rightarrow> string) \<Rightarrow> string \<Rightarrow> json_dict \<Rightarrow> db \<Rightarrow> user_row" where
  "new_user H now data d =
     \<lparr>u_id = autoincrement (users_seq d) (map u_id (users d)),
      u_name = strip (item data ''name''), u_email = py_lower (strip (item data ''email'')),
      u_password = H (item data ''password''), u_age = [], u_bio = [], u_created_at = now\<rparr>"

text \<open>A small database for concrete runs, after the sample data of \<open>db_manager.py\<close>: two
  users, John's appointment, medication and health record, and Sarah's appointment.\<close>

definition john :: user_row where
  "john = \<lparr>u_id = 1, u_name = ''John Doe'', u_email = ''john@gmail.com'',
            u_password = ''321drowssap'', u_age = ''28'', u_bio = [],
            u_created_at = ''2024-12-01 09:00:00''\<rparr>"

definition sarah :: user_row where
  "sarah = \<lparr>u_id = 2, u_name = ''Sarah Smith'', u_email = ''sarah@outlook.com'',
             u_password = ''321drowssap'', u_age = ''34'', u_bio = [],
             u_created_at = ''2024-12-01 09:05:00''\<rparr>"

definition john_appointment :: appointment_row where
  "john_appointment =
     \<lparr>a_id = 1, a_user_email = ''john@gmail.com'', a_doctor = ''Dr. Meera Sharma'',
      a_date = ''2024-12-15'', a_time = ''10:00 AM'', a_booked_at = ''2024-12-01 09:10:00''\<rparr>"

definition sarah_appointment :: appointment_row where
  "sarah_appointment =
     \<lparr>a_id = 2, a_user_email = ''sarah@outlook.com'', a_doctor = ''Dr. Arjun Patel'',
      a_date = ''2024-12-16'', a_time = ''02:00 PM'', a_booked_at = ''2024-12-01 09:11:00''\<rparr>"

definition john_later_appointment :: appointment_row where
  "john_later_appointment =
     \<lparr>a_id = 3, a_user_email = ''john@gmail.com'', a_doctor = ''Dr. Priya Desai'',
      a_date = ''2024-12-20'', a_time = ''11:00 AM'', a_booked_at = ''2024-12-01 09:12:00''\<rparr>"

definition john_medication :: medication_row where
  "john_medication =
     \<lparr>m_id = 1, m_user_email = ''john@gmail.com'', m_name = ''Vitamin D3'',
      m_dosage = ''1000 IU'', m_frequency = ''Morning'', m_duration = SInt 30,
      m_created_at = ''2024-12-01 09:13:00''\<rparr>"

definition john_health :: health_row where
  "john_health =
     \<lparr>h_id = 1, h_user_email = ''john@gmail.com'', h_blood_group = Some ''O+'',
      h_height = Some (SReal 175), h_weight = Some (SReal 70),
      h_emergency_name = Some ''Jane Doe'',
      h_emergency_relation = Some ''Wife'', h_emergency_phone = None,
      h_medical_conditions = Some ''None'', h_allergies = Some ''Peanuts'',
      h_updated_at = ''2024-12-01 09:14:00''\<rparr>"

definition john_log :: log_row where
  "john_log = \<lparr>l_id = 1, l_user_email = ''john@gmail.com'', l_action = ''login'',
                l_details = None, l_timestamp = ''2024-12-01 09:09:00''\<rparr>"

definition sample_db :: db where
  "sample_db =
     \<lparr>users = [john, sarah], users_seq = 2,
      appointments = [john_appointment, sarah_appointment, john_later_appointment],
      appointments_seq = 3,
      medications = [john_medication], medications_seq = 1,
      health_records = [john_health], health_records_seq = 1,
      activity_logs = [john_log], activity_logs_seq = 1\<rparr>"

text \<open>A sequence of \<open>save_health_records\<close> requests, each with its refusals, its time and
  its body, run one after the other.\<close>

fun save_all :: "affinity \<Rightarrow> (bool list \<times> string \<times> json_dict) list \<Rightarrow> db \<Rightarrow> db" where
  "save_all to_real [] d = d"
| "save_all to_real ((fs, now, data) # reqs) d =
     save_all to_real reqs (snd (save_health_records to_real fs now data d))"

text \<open>A conversion for concrete runs: it reads the texts \<open>165\<close> and \<open>175\<close> as numbers and
  keeps every other text.\<close>

definition sample_to_real :: affinity where
  "sample_to_real s =
     (if s = ''175'' then SReal 175 else if s = ''165'' then SReal 165 else SText s)"

text \<open>No two health records have the same lowercased \<open>user_email\<close>.\<close>

definition one_record_per_user :: "db \<Rightarrow> bool" where
  "one_record_per_user d = distinct (map (\<lambda>h. sql_lower (h_user_email h)) (health_records d))"

text \<open>Three properties of the body of a \<open>with get_db()\<close> block, for reasoning about what
  a route leaves in the store: the body does not touch the committed database; it never
  returns an error response; whenever it returns an error response, its transaction has
  written nothing.\<close>

definition keeps_store :: "'a io \<Rightarrow> bool" where
  "keeps_store m = (\<forall>c. store (snd (m c)) = store c)"

definition error_free :: "json io \<Rightarrow> bool" where
  "error_free m = (\<forall>c v c'. m c = (Inr v, c') \<longrightarrow> \<not> is_error v)"

definition quiet_errors :: "json io \<Rightarrow> bool" where
  "quiet_errors m = (\<forall>c v c'. m c = (Inr v, c') \<longrightarrow> is_error v \<longrightarrow> txn c' = txn c)"

section \<open>Basic facts\<close>

lemmas io_defs = get_db_def connect_def commit_def rollback_def close_def ret_def bind_io_def
  execute_def except_def fetchone_def

lemmas string_defs = py_lower_def sql_lower_def lower_char_def char_of_def bit_0 strip_def
  isspace_def truthy_def item_def get_default_def

lemmas sample_defs = sample_db_def john_def sarah_def john_appointment_def sarah_appointment_def
  john_later_appointment_def john_medication_def john_health_def john_log_def

lemma is_error_simps [simp]:
  "is_error (error_msg m)" "\<not> is_error (success_msg m)" "is_error server_error"
  by (simp_all add: is_error_def error_msg_def success_msg_def server_error_def)

lemma of_char_lower_char:
  "of_char (lower_char c) =
     (let n = (of_char c :: nat) in if 65 \<le> n \<and> n \<le> 90 then n + 32 else n)"
  by (simp add: lower_char_def Let_def)

lemma isspace_lower_char [simp]: "isspace (lower_char c) = isspace c"
  by (simp add: isspace_def of_char_lower_char Let_def)

lemma lower_char_idem [simp]: "lower_char (lower_char c) = lower_char c"
proof -
  have "\<not> (65 \<le> (of_char (lower_char c) :: nat) \<and> (of_char (lower_char c) :: nat) \<le> 90)"
    by (simp add: of_char_lower_char Let_def)
  then show ?thesis
    unfolding lower_char_def [of "lower_char c"] Let_def by (rule if_not_P)
qed

lemma dropWhile_isspace_lower:
  "dropWhile isspace (map lower_char s) = map lower_char (dropWhile isspace s)"
  by (induction s) auto

lemma py_lower_strip: "py_lower (strip s) = strip (py_lower s)"
  by (simp add: py_lower_def strip_def rev_map dropWhile_isspace_lower)

lemma sql_lower_py_lower [simp]: "sql_lower (py_lower s) = py_lower s"
  by (simp add: sql_lower_def py_lower_def)

lemma filter_hit: "x \<in> set xs \<Longrightarrow> P x \<Longrightarrow> filter P xs \<noteq> []"
  by (induction xs) auto

text \<open>\<open>execute\<close> and \<open>commit\<close> with the refusal as a condition.\<close>

lemma execute_if:
  "execute s c =
     (if faults c \<noteq> [] \<and> hd (faults c) then (Inl OperationalError, c\<lparr>faults := tl (faults c)\<rparr>)
      else (case s (foreign_keys c) (txn c) of
              Inl e \<Rightarrow> (Inl e, c\<lparr>faults := tl (faults c)\<rparr>)
            | Inr (v, d) \<Rightarrow> (Inr v, c\<lparr>txn := d, faults := tl (faults c)\<rparr>)))"
  by (simp add: execute_def split: list.splits bool.splits)

lemma commit_if:
  "commit c =
     (if faults c \<noteq> [] \<and> hd (faults c) then (Inl OperationalError, c\<lparr>faults := tl (faults c)\<rparr>)
      else (Inr (), c\<lparr>store := txn c, faults := tl (faults c)\<rparr>))"
  by (simp add: commit_def split: list.splits bool.splits)

lemmas io_if = get_db_def connect_def commit_if rollback_def close_def ret_def bind_io_def
  execute_if except_def fetchone_def

section \<open>Booking a taken slot\<close>

text \<open>
  Claim C1. When the store holds an appointment with a given doctor, date and time, a
  request to book that doctor, date and time fails and the store stays as it was, whoever
  asks and whichever statements the database refuses. When the request passes the
  route's field check (an email is given and the three fields are not empty), the answer
  is "This time slot is already booked": nothing is assumed of the email, the check is on
  doctor, date and time alone.
\<close>

theorem add_appointment_slot_taken:
  assumes booked: "a \<in> set (appointments d)"
    and same: "data ''doctor'' = Some (a_doctor a)" "data ''date'' = Some (a_date a)"
      "data ''time'' = Some (a_time a)"
  shows "(truthy (data ''email'') \<and> a_doctor a \<noteq> [] \<and> a_date a \<noteq> [] \<and> a_time a \<noteq> []
          \<longrightarrow> add_appointment [] now data d =
           (error_msg ''This time slot is already booked. Please choose another time.'', d))
         \<and> (\<forall>fs. is_error (fst (add_appointment fs now data d))
                 \<and> snd (add_appointment fs now data d) = d)"
proof -
  let ?hits = "filter (\<lambda>r. a_doctor r = a_doctor a \<and> a_date r = a_date a \<and> a_time r = a_time a)
                 (appointments d)"
  let ?ok = "list_all (\<lambda>field. truthy (data field)) [''email'', ''doctor'', ''date'', ''time'']"
  have "?hits \<noteq> []" using booked by (rule filter_hit) simp
  then obtain r rs where hits: "?hits = r # rs" by (cases ?hits) auto
  have ok: "?ok \<longleftrightarrow>
      truthy (data ''email'') \<and> a_doctor a \<noteq> [] \<and> a_date a \<noteq> [] \<and> a_time a \<noteq> []"
    using same by (simp add: truthy_def)
  have 1: "add_appointment [] now data d =
           (error_msg ''This time slot is already booked. Please choose another time.'', d)"
    if "?ok"
    using that same hits
    by (simp add: add_appointment_def add_appointment_body_def io_defs select_slot_def item_def)
  have 2: "is_error (fst (add_appointment fs now data d)) \<and> snd (add_appointment fs now data d) = d"
    for fs
  proof (cases ?ok)
    case True
    then show ?thesis
      using same hits
      by (simp add: add_appointment_def add_appointment_body_def io_if select_slot_def item_def)
  next
    case False
    then show ?thesis by (simp add: add_appointment_def)
  qed
  from 1 2 ok show ?thesis by blast
qed

text \<open>Claim C1 on the sample database: Sarah asks for John's slot.\<close>

theorem add_appointment_slot_taken_witness:
  "add_appointment [] ''2024-12-02 08:00:00''
     [''email'' \<mapsto> ''sarah@outlook.com'', ''doctor'' \<mapsto> ''Dr. Meera Sharma'',
      ''date'' \<mapsto> ''2024-12-15'', ''time'' \<mapsto> ''10:00 AM''] sample_db
   = (error_msg ''This time slot is already booked. Please choose another time.'', sample_db)"
  using add_appointment_slot_taken [of john_appointment sample_db
      "[''email'' \<mapsto> ''sarah@outlook.com'', ''doctor'' \<mapsto> ''Dr. Meera Sharma'',
        ''date'' \<mapsto> ''2024-12-15'', ''time'' \<mapsto> ''10:00 AM'']" "''2024-12-02 08:00:00''"]
  by (simp add: sample_defs truthy_def)

section \<open>Signup and login\<close>

lemma signup_success:
  assumes "signup H [] now data d = (r, d')" and "\<not> is_error r"
  shows "signup_valid data"
    and "filter (\<lambda>u. sql_lower (u_email u) = py_lower (strip (item data ''email''))) (users d) = []"
    and "users d' = users d @ [new_user H now data d]"
  using assms
  by (auto simp add: signup_def signup_valid_def new_user_def Let_def io_defs signup_body_def
      select_users_by_email_def insert_user_def insert_log_def
      split: if_splits list.splits)

text \<open>
  Claim C4. When a stored user's email, lowercased, equals the lowercased and trimmed
  email of a signup request, the signup fails and the store stays as it was, whichever
  statements the database refuses; when the request passes the field checks of \<open>signup\<close>,
  the answer is "Email already registered". An email that differs from a stored one in
  letter case only is such a request.
\<close>

theorem signup_case_variant_conflict:
  assumes "u \<in> set (users d)" and "data ''email'' = Some email"
    and "sql_lower (u_email u) = py_lower (strip email)"
  shows "(signup_valid data \<longrightarrow>
            signup H [] now data d = (error_msg ''Email already registered'', d))
         \<and> (\<forall>fs. is_error (fst (signup H fs now data d)) \<and> snd (signup H fs now data d) = d)"
proof -
  let ?hits = "filter (\<lambda>u. sql_lower (u_email u) = py_lower (strip (item data ''email''))) (users d)"
  have "sql_lower (u_email u) = py_lower (strip (item data ''email''))"
    using assms(2,3) by (simp add: item_def)
  then have "u \<in> set ?hits" using assms(1) by simp
  then obtain r rs where hits: "?hits = r # rs" by (cases ?hits) auto
  have 1: "signup H [] now data d = (error_msg ''Email already registered'', d)"
    if "signup_valid data"
    using that hits
    by (simp add: signup_def signup_valid_def Let_def io_defs signup_body_def
        select_users_by_email_def)
  have 2: "is_error (fst (signup H fs now data d)) \<and> snd (signup H fs now data d) = d" for fs
  proof (cases "signup_valid data")
    case True
    then show ?thesis
      using hits
      by (simp add: signup_def signup_valid_def Let_def io_if signup_body_def
          select_users_by_email_def)
  next
    case False
    then show ?thesis by (auto simp add: signup_def signup_valid_def Let_def)
  qed
  from 1 2 show ?thesis by blast
qed

text \<open>Claim C4 on the sample database: \<open>John@Gmail.com\<close> after \<open>john@gmail.com\<close>.\<close>

theorem signup_case_variant_conflict_witness:
  "signup rev [] ''2024-12-02 08:00:00''
     [''name'' \<mapsto> ''Johnny'', ''email'' \<mapsto> ''John@Gmail.com'', ''password'' \<mapsto> ''hunter22'']
     sample_db
   = (error_msg ''Email already registered'', sample_db)"
  using signup_case_variant_conflict [of john sample_db
      "[''name'' \<mapsto> ''Johnny'', ''email'' \<mapsto> ''John@Gmail.com'', ''password'' \<mapsto> ''hunter22'']"
      "''John@Gmail.com''" rev "''2024-12-02 08:00:00''"]
  by (simp add: sample_defs signup_valid_def string_defs)

text \<open>
  Claim C3. After a signup that succeeded, a login with the same email in any letter case
  and the same password succeeds, and its response carries the user's \<open>id\<close>, \<open>name\<close>,
  \<open>email\<close>, \<open>age\<close> and \<open>bio\<close> and nothing else: no password field.
\<close>

theorem login_after_signup:
  assumes up: "signup H [] now data d = (r, d')" and ok: "\<not> is_error r"
    and e': "data' ''email'' = Some email'" "py_lower email' = py_lower (item data ''email'')"
    and p': "data' ''password'' = data ''password''"
  shows "fst (login H [] now' data' d') =
           JObj [(''status'', JStr ''success''),
                 (''user'',
                  JObj [(''id'', JNum (autoincrement (users_seq d) (map u_id (users d)))),
                        (''name'', JStr (strip (item data ''name''))),
                        (''email'', JStr (py_lower (strip (item data ''email'')))),
                        (''age'', JStr []), (''bio'', JStr [])])]"
proof -
  let ?e = "py_lower (strip (item data ''email''))"
  note s = signup_success [OF up ok]
  have valid: "truthy (data ''email'')" "truthy (data ''password'')"
    using s(1) by (simp_all add: signup_valid_def)
  have "item data ''email'' \<noteq> []"
    using valid(1) by (simp add: truthy_def item_def split: option.splits)
  then have "py_lower email' \<noteq> []" using e'(2) by (simp add: py_lower_def)
  then have t1: "truthy (data' ''email'')" using e'(1) by (auto simp add: truthy_def py_lower_def)
  have t2: "truthy (data' ''password'')" using valid(2) p' by simp
  have le: "py_lower (strip (item data' ''email'')) = ?e"
    using e' by (simp add: item_def py_lower_strip)
  have pw: "item data' ''password'' = item data ''password''" using p' by (simp add: item_def)
  have sel: "filter (\<lambda>u. sql_lower (u_email u) = ?e) (users d') = [new_user H now data d]"
    using s(2,3) by (simp add: new_user_def)
  show ?thesis
    using t1 t2 le pw sel
    by (simp add: login_def login_body_def Let_def io_defs select_users_by_email_def
        insert_log_def user_data_def new_user_def)
qed

text \<open>Claim C3 on the sample database: Ann signs up as \<open>Ann@Example.com\<close> and logs in as
  \<open>ANN@example.COM\<close>.\<close>

theorem login_after_signup_witness:
  "fst (login rev [] ''2024-12-02 08:05:00''
         [''email'' \<mapsto> ''ANN@example.COM'', ''password'' \<mapsto> ''hunter22'']
         (snd (signup rev [] ''2024-12-02 08:00:00''
                 [''name'' \<mapsto> '' Ann Lee'', ''email'' \<mapsto> ''Ann@Example.com'',
                  ''password'' \<mapsto> ''hunter22''] sample_db)))
   = JObj [(''status'', JStr ''success''),
           (''user'', JObj [(''id'', JNum 3), (''name'', JStr ''Ann Lee''),
                            (''email'', JStr ''ann@example.com''),
                            (''age'', JStr []), (''bio'', JStr [])])]"
proof -
  let ?data = "[''name'' \<mapsto> '' Ann Lee'', ''email'' \<mapsto> ''Ann@Example.com'',
                ''password'' \<mapsto> ''hunter22'']"
  let ?data' = "[''email'' \<mapsto> ''ANN@example.COM'', ''password'' \<mapsto> ''hunter22'']"
  let ?up = "signup rev [] ''2024-12-02 08:00:00'' ?data sample_db"
  have r: "fst ?up = success_msg ''Account created successfully! Please login.''"
    by (simp add: signup_def signup_body_def Let_def io_defs select_users_by_email_def
        insert_user_def insert_log_def sample_defs string_defs autoincrement_def)
  have 1: "?up = (fst ?up, snd ?up)" by simp
  have 2: "\<not> is_error (fst ?up)" by (simp add: r)
  have 3: "?data' ''email'' = Some ''ANN@example.COM''" by simp
  have 4: "py_lower ''ANN@example.COM'' = py_lower (item ?data ''email'')"
    by (simp add: string_defs)
  have 5: "?data' ''password'' = ?data ''password''" by simp
  have a: "autoincrement (users_seq sample_db) (map u_id (users sample_db)) = 3"
    by (simp add: sample_defs autoincrement_def)
  have b: "strip (item ?data ''name'') = ''Ann Lee''"
    by (simp add: string_defs)
  have c: "py_lower (strip (item ?data ''email'')) = ''ann@example.com''"
    by (simp add: string_defs)
  from login_after_signup [OF 1 2 3 4 5, of "''2024-12-02 08:05:00''"]
  show ?thesis by (simp only: a b c)
qed

section \<open>Cancelling an appointment\<close>

text \<open>
  Claim C5. \<open>delete_appointment\<close> removes a row only if the row has the given id and its
  \<open>user_email\<close>, lowercased, is the lowercased email of the request: every other row is
  still there afterwards, under refused statements too. When no row has both, so also
  when the appointment of that id is another user's, the answer is "Appointment not
  found" and the store is as it was. When a row has both, the answer is "Appointment
  cancelled" and exactly the rows that have both are gone.
\<close>

theorem delete_appointment_ownership:
  "(\<forall>fs a. a \<in> set (appointments d)
        \<and> \<not> (a_id a = i \<and> sql_lower (a_user_email a) = py_lower (get_default data ''email'' []))
      \<longrightarrow> a \<in> set (appointments (snd (delete_appointment fs now i data d))))
   \<and> ((\<forall>a \<in> set (appointments d).
          a_id a = i \<longrightarrow> sql_lower (a_user_email a) \<noteq> py_lower (get_default data ''email'' []))
      \<longrightarrow> delete_appointment [] now i data d = (error_msg ''Appointment not found'', d))
   \<and> ((\<exists>a \<in> set (appointments d).
          a_id a = i \<and> sql_lower (a_user_email a) = py_lower (get_default data ''email'' []))
      \<longrightarrow> fst (delete_appointment [] now i data d) = success_msg ''Appointment cancelled''
          \<and> appointments (snd (delete_appointment [] now i data d)) =
              filter (\<lambda>a. \<not> (a_id a = i
                  \<and> sql_lower (a_user_email a) = py_lower (get_default data ''email'' [])))
                (appointments d))"
proof (intro conjI allI impI)
  fix fs a
  assume "a \<in> set (appointments d)
    \<and> \<not> (a_id a = i \<and> sql_lower (a_user_email a) = py_lower (get_default data ''email'' []))"
  then show "a \<in> set (appointments (snd (delete_appointment fs now i data d)))"
    by (auto simp add: delete_appointment_def delete_appointment_body_def Let_def io_defs
        delete_appointment_row_def insert_log_def split: list.splits bool.splits)
next
  assume "\<forall>a \<in> set (appointments d).
          a_id a = i \<longrightarrow> sql_lower (a_user_email a) \<noteq> py_lower (get_default data ''email'' [])"
  then have none: "filter (\<lambda>a. a_id a = i
      \<and> sql_lower (a_user_email a) = py_lower (get_default data ''email'' [])) (appointments d) = []"
    by (auto simp add: filter_empty_conv)
  then have keep: "filter (\<lambda>a. a_id a = i
      \<longrightarrow> sql_lower (a_user_email a) \<noteq> py_lower (get_default data ''email'' [])) (appointments d)
      = appointments d"
    by (auto simp add: filter_empty_conv filter_id_conv)
  show "delete_appointment [] now i data d = (error_msg ''Appointment not found'', d)"
    by (simp add: delete_appointment_def delete_appointment_body_def Let_def io_defs
        delete_appointment_row_def none keep)
next
  assume "\<exists>a \<in> set (appointments d).
          a_id a = i \<and> sql_lower (a_user_email a) = py_lower (get_default data ''email'' [])"
  then have some: "filter (\<lambda>a. a_id a = i
      \<and> sql_lower (a_user_email a) = py_lower (get_default data ''email'' [])) (appointments d) \<noteq> []"
    by (auto simp add: filter_empty_conv)
  then show "fst (delete_appointment [] now i data d) = success_msg ''Appointment cancelled''"
    and "appointments (snd (delete_appointment [] now i data d)) =
              filter (\<lambda>a. \<not> (a_id a = i
                  \<and> sql_lower (a_user_email a) = py_lower (get_default data ''email'' [])))
                (appointments d)"
    by (simp_all add: delete_appointment_def delete_appointment_body_def Let_def io_defs
        delete_appointment_row_def insert_log_def)
qed

text \<open>Claim C5 on the sample database: Sarah cannot cancel John's appointment 1, which
  stays.\<close>

theorem delete_appointment_ownership_witness:
  "delete_appointment [] ''2024-12-02 08:00:00'' 1 [''email'' \<mapsto> ''Sarah@Outlook.com''] sample_db
     = (error_msg ''Appointment not found'', sample_db)
   \<and> john_appointment \<in> set (appointments (snd
        (delete_appointment [] ''2024-12-02 08:00:00'' 1 [''email'' \<mapsto> ''Sarah@Outlook.com'']
           sample_db)))"
proof -
  let ?data = "[''email'' \<mapsto> ''Sarah@Outlook.com'']"
  have e: "py_lower (get_default ?data ''email'' []) = ''sarah@outlook.com''"
    by (simp add: string_defs)
  have other: "\<forall>a \<in> set (appointments sample_db).
      a_id a = 1 \<longrightarrow> sql_lower (a_user_email a) \<noteq> py_lower (get_default ?data ''email'' [])"
    unfolding e by (simp add: sample_defs string_defs)
  have john: "john_appointment \<in> set (appointments sample_db)
      \<and> \<not> (a_id john_appointment = 1
           \<and> sql_lower (a_user_email john_appointment) = py_lower (get_default ?data ''email'' []))"
    unfolding e by (simp add: sample_defs string_defs)
  from delete_appointment_ownership [of sample_db 1 ?data "''2024-12-02 08:00:00''"] other john
  show ?thesis by blast
qed

section \<open>Listing\<close>

lemma mset_insert_desc: "mset (insert_desc before r rows) = add_mset r (mset rows)"
  by (induction rows) auto

lemma mset_order_by_desc: "mset (order_by_desc before rows) = mset rows"
  by (induction rows) (auto simp add: mset_insert_desc)

lemma set_insert_desc: "set (insert_desc before r rows) = insert r (set rows)"
  by (induction rows) auto

lemma sorted_insert_desc:
  assumes total: "\<And>x y. before x y \<or> before y x"
    and trans: "\<And>x y z. before x y \<Longrightarrow> before y z \<Longrightarrow> before x z"
  shows "sorted_wrt before rows \<Longrightarrow> sorted_wrt before (insert_desc before r rows)"
proof (induction rows)
  case Nil
  then show ?case by simp
next
  case (Cons s rows)
  show ?case
  proof (cases "before r s")
    case True
    then have "\<forall>x \<in> set rows. before r x" using Cons.prems trans by auto
    with True Cons.prems show ?thesis by simp
  next
    case False
    then have "before s r" using total by blast
    with False Cons show ?thesis by (auto simp add: set_insert_desc)
  qed
qed

lemma sorted_order_by_desc:
  assumes "\<And>x y. before x y \<or> before y x"
    and "\<And>x y z. before x y \<Longrightarrow> before y z \<Longrightarrow> before x z"
  shows "sorted_wrt before (order_by_desc before rows)"
proof (induction rows)
  case Nil
  then show ?case by simp
next
  case (Cons r rows)
  have "sorted_wrt before (insert_desc before r (order_by_desc before rows))"
    using assms(1) assms(2) Cons.IH by (rule sorted_insert_desc)
  then show ?case by simp
qed

lemma date_time_desc_total: "date_time_desc x y \<or> date_time_desc y x"
  by (auto simp add: date_time_desc_def)

lemma date_time_desc_trans:
  "date_time_desc x y \<Longrightarrow> date_time_desc y z \<Longrightarrow> date_time_desc x z"
  by (auto simp add: date_time_desc_def)

text \<open>
  Claim C9. For a request with an email, \<open>get_appointments\<close> answers with one object per
  row whose \<open>user_email\<close>, lowercased, is the lowercased email of the request, each such
  row once and no other row; the object carries the row's \<open>id\<close>, \<open>doctor\<close>, \<open>date\<close>,
  \<open>time\<close> and \<open>booked_at\<close>. The objects come by descending date and, for equal dates, by
  descending time; dates and times are compared as strings, character by character. The
  store is as it was.
\<close>

theorem get_appointments_sorted:
  "truthy (data ''email'') \<longrightarrow>
   (\<exists>rows. get_appointments [] data d =
             (JArr (map (\<lambda>a. JObj [(''id'', JNum (a_id a)), (''doctor'', JStr (a_doctor a)),
                                (''date'', JStr (a_date a)), (''time'', JStr (a_time a)),
                                (''booked_at'', JStr (a_booked_at a))]) rows), d)
      \<and> mset rows = filter_mset (\<lambda>a. sql_lower (a_user_email a) = py_lower (item data ''email''))
                      (mset (appointments d))
      \<and> sorted_wrt (\<lambda>r s. a_date s < a_date r \<or> (a_date s = a_date r \<and> a_time s \<le> a_time r))
           rows)"
proof
  assume t: "truthy (data ''email'')"
  let ?rows = "order_by_desc date_time_desc
     (filter (\<lambda>a. sql_lower (a_user_email a) = py_lower (item data ''email'')) (appointments d))"
  have 1: "get_appointments [] data d =
             (JArr (map (\<lambda>a. JObj [(''id'', JNum (a_id a)), (''doctor'', JStr (a_doctor a)),
                                (''date'', JStr (a_date a)), (''time'', JStr (a_time a)),
                                (''booked_at'', JStr (a_booked_at a))]) ?rows), d)"
    using t
    by (simp add: get_appointments_def io_defs select_appointments_def appointment_dict_def [abs_def])
  have 2: "mset ?rows = filter_mset (\<lambda>a. sql_lower (a_user_email a) = py_lower (item data ''email''))
                      (mset (appointments d))"
    by (simp add: mset_order_by_desc)
  have "sorted_wrt date_time_desc ?rows"
    by (rule sorted_order_by_desc) (rule date_time_desc_total, rule date_time_desc_trans)
  then have 3: "sorted_wrt (\<lambda>r s. a_date s < a_date r \<or> (a_date s = a_date r \<and> a_time s \<le> a_time r))
           ?rows"
    by (simp add: date_time_desc_def [abs_def])
  from 1 2 3 show "\<exists>rows. get_appointments [] data d =
             (JArr (map (\<lambda>a. JObj [(''id'', JNum (a_id a)), (''doctor'', JStr (a_doctor a)),
                                (''date'', JStr (a_date a)), (''time'', JStr (a_time a)),
                                (''booked_at'', JStr (a_booked_at a))]) rows), d)
      \<and> mset rows = filter_mset (\<lambda>a. sql_lower (a_user_email a) = py_lower (item data ''email''))
                      (mset (appointments d))
      \<and> sorted_wrt (\<lambda>r s. a_date s < a_date r \<or> (a_date s = a_date r \<and> a_time s \<le> a_time r))
           rows"
    by blast
qed

text \<open>Claim C9 on the sample database: John's two appointments, asked for as
  \<open>John@Gmail.com\<close>, the later one first; Sarah's appointment is not listed.\<close>

theorem get_appointments_sorted_witness:
  "(\<exists>rows. get_appointments [] [''email'' \<mapsto> ''John@Gmail.com''] sample_db
             = (JArr (map (\<lambda>a. JObj [(''id'', JNum (a_id a)), (''doctor'', JStr (a_doctor a)),
                                (''date'', JStr (a_date a)), (''time'', JStr (a_time a)),
                                (''booked_at'', JStr (a_booked_at a))]) rows), sample_db)
      \<and> mset rows = {#john_appointment, john_later_appointment#}
      \<and> sorted_wrt (\<lambda>r s. a_date s < a_date r \<or> (a_date s = a_date r \<and> a_time s \<le> a_time r))
           rows)
   \<and> get_appointments [] [''email'' \<mapsto> ''John@Gmail.com''] sample_db
        = (JArr [JObj [(''id'', JNum 3), (''doctor'', JStr ''Dr. Priya Desai''),
                       (''date'', JStr ''2024-12-20''), (''time'', JStr ''11:00 AM''),
                       (''booked_at'', JStr ''2024-12-01 09:12:00'')],
                 JObj [(''id'', JNum 1), (''doctor'', JStr ''Dr. Meera Sharma''),
                       (''date'', JStr ''2024-12-15''), (''time'', JStr ''10:00 AM''),
                       (''booked_at'', JStr ''2024-12-01 09:10:00'')]],
           sample_db)"
proof -
  let ?data = "[''email'' \<mapsto> ''John@Gmail.com'']"
  have t: "truthy (?data ''email'')" by (simp add: truthy_def)
  have e: "py_lower (item ?data ''email'') = ''john@gmail.com''" by (simp add: string_defs)
  have m: "filter_mset (\<lambda>a. sql_lower (a_user_email a) = py_lower (item ?data ''email''))
             (mset (appointments sample_db)) = {#john_appointment, john_later_appointment#}"
    unfolding e by (simp add: sample_defs string_defs)
  have l: "get_appointments [] ?data sample_db
        = (JArr [JObj [(''id'', JNum 3), (''doctor'', JStr ''Dr. Priya Desai''),
                       (''date'', JStr ''2024-12-20''), (''time'', JStr ''11:00 AM''),
                       (''booked_at'', JStr ''2024-12-01 09:12:00'')],
                 JObj [(''id'', JNum 1), (''doctor'', JStr ''Dr. Meera Sharma''),
                       (''date'', JStr ''2024-12-15''), (''time'', JStr ''10:00 AM''),
                       (''booked_at'', JStr ''2024-12-01 09:10:00'')]],
           sample_db)"
    by (simp add: get_appointments_def io_defs select_appointments_def string_defs sample_defs
        date_time_desc_def appointment_dict_def)
  from get_appointments_sorted [of ?data sample_db] t
  have "\<exists>rows. get_appointments [] ?data sample_db = (JArr (map (\<lambda>a. JObj [(''id'', JNum (a_id a)), (''doctor'', JStr (a_doctor a)),
                                (''date'', JStr (a_date a)), (''time'', JStr (a_time a)),
                                (''booked_at'', JStr (a_booked_at a))]) rows), sample_db)
      \<and> mset rows = {#john_appointment, john_later_appointment#}
      \<and> sorted_wrt (\<lambda>r s. a_date s < a_date r \<or> (a_date s = a_date r \<and> a_time s \<le> a_time r))
           rows"
    unfolding m by blast
  with l show ?thesis by blast
qed

text \<open>
  Claim C10. When the email of the request is absent or empty, \<open>get_appointments\<close> and
  \<open>get_medications\<close> answer with the empty array and \<open>get_health_records\<close> with the empty
  object, none of which is an error response, and the store is as it was.
\<close>

theorem get_without_email:
  "data ''email'' = None \<or> data ''email'' = Some [] \<longrightarrow>
     get_appointments fs data d = (JArr [], d)
   \<and> get_medications fs data d = (JArr [], d)
   \<and> get_health_records fs data d = (JObj [], d)
   \<and> \<not> is_error (JArr []) \<and> \<not> is_error (JObj [])"
  by (auto simp add: get_appointments_def get_medications_def get_health_records_def truthy_def
      is_error_def)

text \<open>Claim C10 on the sample database, for a request without email and for one with
  the empty email.\<close>

theorem get_without_email_witness:
  "get_appointments [] Map.empty sample_db = (JArr [], sample_db)
   \<and> get_medications [] [''email'' \<mapsto> []] sample_db = (JArr [], sample_db)
   \<and> get_health_records [] Map.empty sample_db = (JObj [], sample_db)"
  using get_without_email [of Map.empty "[]" sample_db]
    get_without_email [of "[''email'' \<mapsto> []]" "[]" sample_db]
  by simp

section \<open>Saving health records\<close>

lemma distinct_filter_le1:
  "distinct (map f xs) \<Longrightarrow> length (filter (\<lambda>x. f x = k) xs) \<le> Suc 0"
proof (induction xs)
  case Nil
  then show ?case by simp
next
  case (Cons x xs)
  show ?case
  proof (cases "f x = k")
    case True
    from Cons.prems have "f x \<notin> f ` set xs" by simp
    with True have "\<forall>y \<in> set xs. f y \<noteq> k" by (metis imageI)
    then have "filter (\<lambda>x. f x = k) xs = []"
      by (simp add: filter_empty_conv)
    with True show ?thesis by simp
  next
    case False
    with Cons show ?thesis by simp
  qed
qed

lemma set_health_values_email [simp]:
  "h_user_email (set_health_values to_real data now h) = h_user_email h"
  by (simp add: set_health_values_def)

lemma save_cases:
  "snd (save_health_records to_real fs now data d) = d
   \<or> snd (save_health_records to_real fs now data d) =
       d\<lparr>health_records :=
           map (\<lambda>h. if sql_lower (h_user_email h) = py_lower (item data ''email'')
                     then set_health_values to_real data now h else h) (health_records d)\<rparr>
   \<or> (filter (\<lambda>h. sql_lower (h_user_email h) = py_lower (item data ''email''))
         (health_records d) = []
      \<and> health_records (snd (save_health_records to_real fs now data d)) =
          health_records d @
            [set_health_values to_real data now
               \<lparr>h_id = autoincrement (health_records_seq d) (map h_id (health_records d)),
                h_user_email = py_lower (item data ''email''), h_blood_group = None,
                h_height = None, h_weight = None, h_emergency_name = None,
                h_emergency_relation = None, h_emergency_phone = None,
                h_medical_conditions = None, h_allergies = None, h_updated_at = []\<rparr>])"
proof (cases "truthy (data ''email'')")
  case False
  then show ?thesis by (simp add: save_health_records_def)
next
  case t: True
  show ?thesis
  proof (cases "filter (\<lambda>h. sql_lower (h_user_email h) = py_lower (item data ''email''))
         (health_records d)")
    case Nil
    then have free: "\<not> (\<exists>h \<in> set (health_records d). h_user_email h = py_lower (item data ''email''))"
      by (auto simp add: filter_empty_conv)
    show ?thesis
      using t Nil free
      by (simp add: save_health_records_def save_health_records_body_def io_if
          select_health_records_def insert_health_record_def Let_def set_health_values_def)
  next
    case (Cons h0 rest)
    show ?thesis
      using t Cons
      by (simp add: save_health_records_def save_health_records_body_def io_if
          select_health_records_def update_health_record_def)
  qed
qed

lemma save_keeps_one_record:
  assumes "one_record_per_user d"
  shows "one_record_per_user (snd (save_health_records to_real fs now data d))"
proof -
  let ?e = "py_lower (item data ''email'')"
  let ?d' = "snd (save_health_records to_real fs now data d)"
  have upd: "map (\<lambda>h. sql_lower (h_user_email h))
          (map (\<lambda>h. if sql_lower (h_user_email h) = ?e then set_health_values to_real data now h else h) rows)
        = map (\<lambda>h. sql_lower (h_user_email h)) rows" for rows
    by (induction rows) auto
  consider "?d' = d"
    | "?d' = d\<lparr>health_records :=
           map (\<lambda>h. if sql_lower (h_user_email h) = ?e then set_health_values to_real data now h else h)
             (health_records d)\<rparr>"
    | h where "filter (\<lambda>h. sql_lower (h_user_email h) = ?e) (health_records d) = []"
        "h_user_email h = ?e" "health_records ?d' = health_records d @ [h]"
    using save_cases [of to_real fs now data d] by (fastforce simp add: set_health_values_def)
  then show ?thesis
  proof cases
    case 1
    with assms show ?thesis by simp
  next
    case 2
    have "map (\<lambda>h. sql_lower (h_user_email h)) (health_records ?d')
        = map (\<lambda>h. sql_lower (h_user_email h)) (health_records d)"
      unfolding 2 using upd [of "health_records d"] by simp
    with assms show ?thesis by (simp add: one_record_per_user_def)
  next
    case 3
    from 3(1) have "?e \<notin> set (map (\<lambda>h. sql_lower (h_user_email h)) (health_records d))"
      by (auto simp add: filter_empty_conv)
    with assms 3(2,3) show ?thesis by (simp add: one_record_per_user_def)
  qed
qed

lemma save_all_keeps_one_record:
  "one_record_per_user d \<Longrightarrow> one_record_per_user (save_all to_real reqs d)"
proof (induction reqs arbitrary: d)
  case Nil
  then show ?case by simp
next
  case (Cons req reqs)
  obtain fs now data where req: "req = (fs, now, data)" by (cases req)
  have "one_record_per_user (snd (save_health_records to_real fs now data d))"
    using Cons.prems by (rule save_keeps_one_record)
  then have "one_record_per_user (save_all to_real reqs (snd (save_health_records to_real fs now data d)))"
    by (rule Cons.IH)
  then show ?case by (simp add: req)
qed

lemma save_result:
  assumes inv: "one_record_per_user d" and t: "truthy (data ''email'')"
  shows "\<exists>h0. filter (\<lambda>h. sql_lower (h_user_email h) = py_lower (item data ''email''))
            (health_records (snd (save_health_records to_real [] now data d)))
          = [set_health_values to_real data now h0]"
proof -
  let ?e = "py_lower (item data ''email'')"
  let ?hits = "filter (\<lambda>h. sql_lower (h_user_email h) = ?e) (health_records d)"
  have upd: "filter (\<lambda>h. sql_lower (h_user_email h) = ?e)
          (map (\<lambda>h. if sql_lower (h_user_email h) = ?e then set_health_values to_real data now h else h) rows)
        = map (set_health_values to_real data now) (filter (\<lambda>h. sql_lower (h_user_email h) = ?e) rows)"
    for rows
    by (induction rows) auto
  show ?thesis
  proof (cases ?hits)
    case Nil
    then have free: "\<not> (\<exists>h \<in> set (health_records d). h_user_email h = ?e)"
      by (auto simp add: filter_empty_conv)
    let ?new = "\<lparr>h_id = autoincrement (health_records_seq d) (map h_id (health_records d)),
        h_user_email = ?e, h_blood_group = None, h_height = None, h_weight = None,
        h_emergency_name = None, h_emergency_relation = None, h_emergency_phone = None,
        h_medical_conditions = None, h_allergies = None, h_updated_at = []\<rparr>"
    have "filter (\<lambda>h. sql_lower (h_user_email h) = ?e)
            (health_records (snd (save_health_records to_real [] now data d)))
          = [set_health_values to_real data now ?new]"
      using t Nil free
      by (simp add: save_health_records_def save_health_records_body_def io_if
          select_health_records_def insert_health_record_def Let_def set_health_values_def)
    then show ?thesis by blast
  next
    case (Cons h0 rest)
    have "length ?hits \<le> Suc 0"
      using inv unfolding one_record_per_user_def by (rule distinct_filter_le1)
    with Cons have one: "?hits = [h0]" by simp
    have "filter (\<lambda>h. sql_lower (h_user_email h) = ?e)
            (health_records (snd (save_health_records to_real [] now data d)))
          = [set_health_values to_real data now h0]"
      using t one
      by (simp add: save_health_records_def save_health_records_body_def io_if
          select_health_records_def update_health_record_def upd)
    then show ?thesis by blast
  qed
qed


lemma empty_db_one_record: "one_record_per_user empty_db"
  by (simp add: one_record_per_user_def empty_db_def)

text \<open>
  Claim C2. From a store in which no two health records have the same lowercased email
  (the empty store is one), after any sequence of \<open>save_health_records\<close> requests, refused
  statements or not, at most one health record matches any email. After two saves for
  the same user, whose emails may differ in letter case, exactly one record matches the
  user's email, and its columns hold the values of the second save: the text columns the
  request's text, \<open>height\<close> and \<open>weight\<close> what SQLite makes of the request's text in a
  \<open>REAL\<close> column, and a column the second save does not give is \<open>NULL\<close>. After one save
  likewise exactly one record matches, holding the values of that save, whether the save
  inserted the record or updated it.
\<close>

theorem health_record_upsert:
  assumes "one_record_per_user d"
  shows "(\<forall>reqs email.
            length (filter (\<lambda>h. sql_lower (h_user_email h) = py_lower email)
                      (health_records (save_all to_real reqs d))) \<le> 1)
         \<and> (truthy (data1 ''email'') \<and> truthy (data2 ''email'')
              \<and> py_lower (item data2 ''email'') = py_lower (item data1 ''email'')
            \<longrightarrow> (\<exists>h. filter (\<lambda>h. sql_lower (h_user_email h) = py_lower (item data1 ''email''))
                        (health_records (snd (save_health_records to_real [] now2 data2
                           (snd (save_health_records to_real [] now1 data1 d))))) = [h]
                    \<and> h_blood_group h = data2 ''blood_group''
                    \<and> h_height h = map_option to_real (data2 ''height'')
                    \<and> h_weight h = map_option to_real (data2 ''weight'')
                    \<and> h_emergency_name h = data2 ''emergency_name''
                    \<and> h_emergency_relation h = data2 ''emergency_relation''
                    \<and> h_emergency_phone h = data2 ''emergency_phone''
                    \<and> h_medical_conditions h = data2 ''medical_conditions''
                    \<and> h_allergies h = data2 ''allergies'' \<and> h_updated_at h = now2))
         \<and> (truthy (data1 ''email'')
            \<longrightarrow> (\<exists>h. filter (\<lambda>h. sql_lower (h_user_email h) = py_lower (item data1 ''email''))
                        (health_records (snd (save_health_records to_real [] now1 data1 d))) = [h]
                    \<and> h_blood_group h = data1 ''blood_group''
                    \<and> h_height h = map_option to_real (data1 ''height'')
                    \<and> h_weight h = map_option to_real (data1 ''weight'')
                    \<and> h_emergency_name h = data1 ''emergency_name''
                    \<and> h_emergency_relation h = data1 ''emergency_relation''
                    \<and> h_emergency_phone h = data1 ''emergency_phone''
                    \<and> h_medical_conditions h = data1 ''medical_conditions''
                    \<and> h_allergies h = data1 ''allergies'' \<and> h_updated_at h = now1))"
proof (intro conjI allI impI)
  fix reqs email
  have "one_record_per_user (save_all to_real reqs d)"
    using assms by (rule save_all_keeps_one_record)
  then have "length (filter (\<lambda>h. sql_lower (h_user_email h) = py_lower email)
                      (health_records (save_all to_real reqs d))) \<le> Suc 0"
    unfolding one_record_per_user_def by (rule distinct_filter_le1)
  then show "length (filter (\<lambda>h. sql_lower (h_user_email h) = py_lower email)
                      (health_records (save_all to_real reqs d))) \<le> 1"
    by simp
next
  assume a: "truthy (data1 ''email'') \<and> truthy (data2 ''email'')
              \<and> py_lower (item data2 ''email'') = py_lower (item data1 ''email'')"
  let ?d1 = "snd (save_health_records to_real [] now1 data1 d)"
  have "one_record_per_user ?d1" using assms by (rule save_keeps_one_record)
  from save_result [OF this, where data = data2 and now = now2 and to_real = to_real] a
  obtain h0 where "filter (\<lambda>h. sql_lower (h_user_email h) = py_lower (item data1 ''email''))
            (health_records (snd (save_health_records to_real [] now2 data2 ?d1)))
          = [set_health_values to_real data2 now2 h0]"
    by auto
  then show "\<exists>h. filter (\<lambda>h. sql_lower (h_user_email h) = py_lower (item data1 ''email''))
                        (health_records (snd (save_health_records to_real [] now2 data2 ?d1))) = [h]
                    \<and> h_blood_group h = data2 ''blood_group''
                    \<and> h_height h = map_option to_real (data2 ''height'')
                    \<and> h_weight h = map_option to_real (data2 ''weight'')
                    \<and> h_emergency_name h = data2 ''emergency_name''
                    \<and> h_emergency_relation h = data2 ''emergency_relation''
                    \<and> h_emergency_phone h = data2 ''emergency_phone''
                    \<and> h_medical_conditions h = data2 ''medical_conditions''
                    \<and> h_allergies h = data2 ''allergies'' \<and> h_updated_at h = now2"
    by (simp add: set_health_values_def)
next
  assume "truthy (data1 ''email'')"
  with save_result [OF assms, where data = data1 and now = now1 and to_real = to_real]
  obtain h0 where "filter (\<lambda>h. sql_lower (h_user_email h) = py_lower (item data1 ''email''))
            (health_records (snd (save_health_records to_real [] now1 data1 d)))
          = [set_health_values to_real data1 now1 h0]"
    by auto
  then show "\<exists>h. filter (\<lambda>h. sql_lower (h_user_email h) = py_lower (item data1 ''email''))
                        (health_records (snd (save_health_records to_real [] now1 data1 d))) = [h]
                    \<and> h_blood_group h = data1 ''blood_group''
                    \<and> h_height h = map_option to_real (data1 ''height'')
                    \<and> h_weight h = map_option to_real (data1 ''weight'')
                    \<and> h_emergency_name h = data1 ''emergency_name''
                    \<and> h_emergency_relation h = data1 ''emergency_relation''
                    \<and> h_emergency_phone h = data1 ''emergency_phone''
                    \<and> h_medical_conditions h = data1 ''medical_conditions''
                    \<and> h_allergies h = data1 ''allergies'' \<and> h_updated_at h = now1"
    by (simp add: set_health_values_def)
qed

text \<open>Claim C2 on the sample database: John's record is saved as \<open>JOHN@gmail.com\<close> and
  again as \<open>john@gmail.com\<close>.\<close>

theorem health_record_upsert_witness:
  "one_record_per_user sample_db
   \<and> length (filter (\<lambda>h. sql_lower (h_user_email h) = py_lower ''John@gmail.com'')
        (health_records (save_all sample_to_real
           [([], ''2024-12-02 08:00:00'',
             [''email'' \<mapsto> ''JOHN@gmail.com'', ''blood_group'' \<mapsto> ''O-'']),
            ([False, True], ''2024-12-02 08:01:00'', [''email'' \<mapsto> ''ann@example.com''])]
           sample_db))) \<le> 1
   \<and> (\<exists>h. filter (\<lambda>h. sql_lower (h_user_email h)
                      = py_lower (item [''email'' \<mapsto> ''JOHN@gmail.com'', ''blood_group'' \<mapsto> ''O-'',
                                        ''height'' \<mapsto> ''175''] ''email''))
              (health_records (snd (save_health_records sample_to_real [] ''2024-12-02 08:05:00''
                 [''email'' \<mapsto> ''john@gmail.com'', ''blood_group'' \<mapsto> ''A+'', ''height'' \<mapsto> ''165'']
                 (snd (save_health_records sample_to_real [] ''2024-12-02 08:00:00''
                    [''email'' \<mapsto> ''JOHN@gmail.com'', ''blood_group'' \<mapsto> ''O-'',
                     ''height'' \<mapsto> ''175''] sample_db))))) = [h]
          \<and> h_blood_group h = Some ''A+'' \<and> h_height h = Some (SReal 165) \<and> h_weight h = None
          \<and> h_updated_at h = ''2024-12-02 08:05:00'')
   \<and> health_records (snd (save_health_records sample_to_real [] ''2024-12-02 08:10:00''
        [''email'' \<mapsto> ''Sarah@Outlook.com'', ''height'' \<mapsto> ''165''] sample_db))
      = [john_health,
         \<lparr>h_id = 2, h_user_email = ''sarah@outlook.com'', h_blood_group = None,
          h_height = Some (SReal 165), h_weight = None, h_emergency_name = None,
          h_emergency_relation = None, h_emergency_phone = None, h_medical_conditions = None,
          h_allergies = None, h_updated_at = ''2024-12-02 08:10:00''\<rparr>]"
proof -
  let ?data1 = "[''email'' \<mapsto> ''JOHN@gmail.com'', ''blood_group'' \<mapsto> ''O-'', ''height'' \<mapsto> ''175'']"
  let ?data2 = "[''email'' \<mapsto> ''john@gmail.com'', ''blood_group'' \<mapsto> ''A+'', ''height'' \<mapsto> ''165'']"
  have inv: "one_record_per_user sample_db"
    by (simp add: one_record_per_user_def sample_defs)
  have t: "truthy (?data1 ''email'') \<and> truthy (?data2 ''email'')
      \<and> py_lower (item ?data2 ''email'') = py_lower (item ?data1 ''email'')"
    by (simp add: string_defs)
  have v: "?data2 ''blood_group'' = Some ''A+''"
    "map_option sample_to_real (?data2 ''height'') = Some (SReal 165)"
    "map_option sample_to_real (?data2 ''weight'') = None"
    by (simp_all add: sample_to_real_def)
  from health_record_upsert [OF inv, where ?to_real = sample_to_real and ?data1.0 = ?data1
      and ?data2.0 = ?data2 and ?now2.0 = "''2024-12-02 08:05:00''"
      and ?now1.0 = "''2024-12-02 08:00:00''"] t inv
  have two: "\<exists>h. filter (\<lambda>h. sql_lower (h_user_email h) = py_lower (item ?data1 ''email''))
              (health_records (snd (save_health_records sample_to_real [] ''2024-12-02 08:05:00''
                 ?data2 (snd (save_health_records sample_to_real [] ''2024-12-02 08:00:00''
                    ?data1 sample_db))))) = [h]
          \<and> h_blood_group h = Some ''A+'' \<and> h_height h = Some (SReal 165) \<and> h_weight h = None
          \<and> h_updated_at h = ''2024-12-02 08:05:00''"
    and most: "length (filter (\<lambda>h. sql_lower (h_user_email h) = py_lower ''John@gmail.com'')
        (health_records (save_all sample_to_real
           [([], ''2024-12-02 08:00:00'',
             [''email'' \<mapsto> ''JOHN@gmail.com'', ''blood_group'' \<mapsto> ''O-'']),
            ([False, True], ''2024-12-02 08:01:00'', [''email'' \<mapsto> ''ann@example.com''])]
           sample_db))) \<le> 1"
    unfolding v by blast+
  have ins: "health_records (snd (save_health_records sample_to_real [] ''2024-12-02 08:10:00''
        [''email'' \<mapsto> ''Sarah@Outlook.com'', ''height'' \<mapsto> ''165''] sample_db))
      = [john_health,
         \<lparr>h_id = 2, h_user_email = ''sarah@outlook.com'', h_blood_group = None,
          h_height = Some (SReal 165), h_weight = None, h_emergency_name = None,
          h_emergency_relation = None, h_emergency_phone = None, h_medical_conditions = None,
          h_allergies = None, h_updated_at = ''2024-12-02 08:10:00''\<rparr>]"
    by (simp add: save_health_records_def save_health_records_body_def io_defs
        select_health_records_def insert_health_record_def Let_def autoincrement_def
        sample_to_real_def sample_db_def john_health_def string_defs)
  from inv most two ins show ?thesis by blast
qed

section \<open>Errors leave the store as it was\<close>

lemma map_if_no_hit: "filter P xs = [] \<Longrightarrow> map (\<lambda>x. if P x then f x else x) xs = xs"
  by (induction xs) (auto split: if_splits)

lemma filter_not_no_hit: "filter P xs = [] \<Longrightarrow> filter (\<lambda>x. \<not> P x) xs = xs"
  by (induction xs) (auto split: if_splits)

lemma execute_ok:
  "\<not> (faults c \<noteq> [] \<and> hd (faults c)) \<Longrightarrow>
   execute s c = (case s (foreign_keys c) (txn c) of
              Inl e \<Rightarrow> (Inl e, c\<lparr>faults := tl (faults c)\<rparr>)
            | Inr (v, d) \<Rightarrow> (Inr v, c\<lparr>txn := d, faults := tl (faults c)\<rparr>))"
  unfolding execute_if by (rule if_not_P)

lemma execute_refused:
  "faults c \<noteq> [] \<and> hd (faults c) \<Longrightarrow>
   execute s c = (Inl OperationalError, c\<lparr>faults := tl (faults c)\<rparr>)"
  unfolding execute_if by (rule if_P)

lemma commit_ok:
  "\<not> (faults c \<noteq> [] \<and> hd (faults c)) \<Longrightarrow>
   commit c = (Inr (), c\<lparr>store := txn c, faults := tl (faults c)\<rparr>)"
  unfolding commit_if by (rule if_not_P)

lemma commit_refused:
  "faults c \<noteq> [] \<and> hd (faults c) \<Longrightarrow>
   commit c = (Inl OperationalError, c\<lparr>faults := tl (faults c)\<rparr>)"
  unfolding commit_if by (rule if_P)

lemma keeps_store_ret: "keeps_store (ret v)"
  by (simp add: keeps_store_def ret_def)

lemma keeps_store_execute: "keeps_store (execute s)"
  by (simp add: keeps_store_def execute_if split: sum.splits prod.splits)

lemma keeps_store_bind:
  assumes "keeps_store m" and "\<And>v. keeps_store (f v)"
  shows "keeps_store (bind_io m f)"
proof -
  have "store (snd (bind_io m f c)) = store c" for c
  proof (cases "m c")
    case (Pair r c1)
    have s1: "store c1 = store c" using assms(1) Pair by (auto simp add: keeps_store_def dest: spec [of _ c])
    show ?thesis
    proof (cases r)
      case (Inl e)
      with Pair s1 show ?thesis by (simp add: bind_io_def)
    next
      case (Inr v)
      have "store (snd (f v c1)) = store c1" using assms(2) [of v] by (simp add: keeps_store_def)
      with Pair Inr s1 show ?thesis by (simp add: bind_io_def)
    qed
  qed
  then show ?thesis by (simp add: keeps_store_def)
qed

lemma error_free_ret: "\<not> is_error v \<Longrightarrow> error_free (ret v)"
  by (simp add: error_free_def ret_def)

lemma error_free_bind:
  assumes "\<And>v. error_free (f v)"
  shows "error_free (bind_io m f)"
  using assms by (auto simp add: error_free_def bind_io_def split: prod.splits sum.splits)

lemma quiet_errors_ret: "quiet_errors (ret v)"
  by (simp add: quiet_errors_def ret_def)

lemma quiet_errors_bind:
  assumes "\<And>fk d v d'. s fk d = Inr (v, d') \<Longrightarrow> (d' = d \<and> quiet_errors (f v)) \<or> error_free (f v)"
  shows "quiet_errors (bind_io (execute s) f)"
proof -
  have "txn c' = txn c" if run: "bind_io (execute s) f c = (Inr w, c')" and err: "is_error w"
    for c w c'
  proof (cases "faults c \<noteq> [] \<and> hd (faults c)")
    case True
    from run show ?thesis by (simp add: bind_io_def execute_refused [OF True])
  next
    case False
    show ?thesis
    proof (cases "s (foreign_keys c) (txn c)")
      case (Inl e)
      with run show ?thesis by (simp add: bind_io_def execute_ok [OF False])
    next
      case (Inr p)
      obtain v d' where p: "p = (v, d')" by (cases p)
      let ?c1 = "c\<lparr>txn := d', faults := tl (faults c)\<rparr>"
      have f: "f v ?c1 = (Inr w, c')"
        using Inr p run by (simp add: bind_io_def execute_ok [OF False])
      from assms [of "foreign_keys c" "txn c" v d'] Inr p
      consider "d' = txn c" "quiet_errors (f v)" | "error_free (f v)" by auto
      then show ?thesis
      proof cases
        case 1
        from 1(2) f err have "txn c' = txn ?c1" unfolding quiet_errors_def by blast
        with 1(1) show ?thesis by simp
      next
        case 2
        with f err show ?thesis unfolding error_free_def by blast
      qed
    qed
  qed
  then show ?thesis unfolding quiet_errors_def by blast
qed

lemma get_db_error:
  assumes ks: "keeps_store body" and qe: "quiet_errors body"
    and err: "is_error (fst (except server_error (get_db body fs d)))"
  shows "snd (except server_error (get_db body fs d)) = d"
proof (cases "body (connect d fs)")
  case (Pair r c)
  have st: "store c = d"
    using ks Pair by (auto simp add: keeps_store_def connect_def dest: spec [of _ "connect d fs"])
  show ?thesis
  proof (cases r)
    case (Inl e)
    with Pair st show ?thesis by (simp add: get_db_def except_def close_def rollback_def)
  next
    case (Inr v)
    show ?thesis
    proof (cases "faults c \<noteq> [] \<and> hd (faults c)")
      case True
      from Pair Inr st show ?thesis
        by (simp add: get_db_def except_def close_def rollback_def commit_refused [OF True])
    next
      case False
      from Pair Inr err have "is_error v"
        by (simp add: get_db_def except_def close_def commit_ok [OF False])
      with qe Pair Inr have "txn c = txn (connect d fs)" unfolding quiet_errors_def by blast
      then have "txn c = d" by (simp add: connect_def)
      with Pair Inr show ?thesis
        by (simp add: get_db_def except_def close_def commit_ok [OF False])
    qed
  qed
qed


lemma keeps_store_if:
  "keeps_store a \<Longrightarrow> keeps_store b \<Longrightarrow> keeps_store (if c then a else b)"
  by simp

lemmas keeps_store_intros = keeps_store_bind keeps_store_execute keeps_store_ret keeps_store_if

lemma quiet_of_error_free: "error_free m \<Longrightarrow> quiet_errors m"
  unfolding error_free_def quiet_errors_def by blast

lemma error_free_success: "error_free (ret (success_msg m))"
  by (rule error_free_ret) simp

lemma quiet_check_then_write:
  assumes "\<And>fk d v d'. s fk d = Inr (v, d') \<Longrightarrow> d' = d" and "\<And>v. error_free (g v)"
  shows "quiet_errors (bind_io (execute s) (\<lambda>v. if c v then ret e else g v))"
proof (rule quiet_errors_bind)
  fix fk d v d'
  assume "s fk d = Inr (v, d')"
  then have "d' = d" by (rule assms(1))
  moreover have "quiet_errors (if c v then ret e else g v)"
    using assms(2) [of v] by (simp add: quiet_errors_ret quiet_of_error_free)
  ultimately show "(d' = d \<and> quiet_errors (if c v then ret e else g v))
      \<or> error_free (if c v then ret e else g v)"
    by blast
qed

lemma quiet_rowcount:
  fixes s :: "nat stmt"
  assumes "\<And>fk d d'. s fk d = Inr (0, d') \<Longrightarrow> d' = d" and "error_free g"
  shows "quiet_errors (bind_io (execute s) (\<lambda>rowcount. if rowcount = 0 then ret e else g))"
proof (rule quiet_errors_bind)
  fix fk d and n :: nat and d'
  assume run: "s fk d = Inr (n, d')"
  show "(d' = d \<and> quiet_errors (if n = 0 then ret e else g))
      \<or> error_free (if n = 0 then ret e else g)"
  proof (cases "n = 0")
    case True
    with run have "d' = d" using assms(1) by simp
    with True show ?thesis by (simp add: quiet_errors_ret)
  next
    case False
    with assms(2) show ?thesis by simp
  qed
qed

lemma signup_error:
  assumes "is_error (fst (signup H fs now data d))"
  shows "snd (signup H fs now data d) = d"
proof (cases "signup_valid data")
  case True
  let ?body = "signup_body H now data (py_lower (strip (item data ''email'')))"
  have run: "signup H fs now data d = except server_error (get_db ?body fs d)"
    using True by (simp add: signup_def signup_valid_def Let_def)
  have "keeps_store ?body"
    unfolding signup_body_def Let_def by (intro keeps_store_intros)
  moreover have "quiet_errors ?body"
    unfolding signup_body_def Let_def
    by (rule quiet_check_then_write)
      (simp add: select_users_by_email_def, intro error_free_bind error_free_success)
  ultimately show ?thesis
    using assms unfolding run by (rule get_db_error)
next
  case False
  then show ?thesis
    by (auto simp add: signup_def signup_valid_def Let_def)
qed

lemma update_user_none:
  assumes "update_user name age bio email fk d = Inr (0, d')"
  shows "d' = d"
proof -
  from assms have none: "filter (\<lambda>u. sql_lower (u_email u) = email) (users d) = []"
    and d': "d' = d\<lparr>users := map (\<lambda>u. if sql_lower (u_email u) = email
                                then u\<lparr>u_name := name, u_age := age, u_bio := bio\<rparr> else u)
                         (users d)\<rparr>"
    by (auto simp add: update_user_def)
  from none have "map (\<lambda>u. if sql_lower (u_email u) = email
                                then u\<lparr>u_name := name, u_age := age, u_bio := bio\<rparr> else u)
                         (users d) = users d"
    by (rule map_if_no_hit)
  with d' show ?thesis by simp
qed

lemma save_profile_error:
  assumes "is_error (fst (save_profile fs now data d))"
  shows "snd (save_profile fs now data d) = d"
proof (cases "truthy (data ''email'')")
  case True
  have run: "save_profile fs now data d
      = except server_error (get_db (save_profile_body now data) fs d)"
    using True by (simp add: save_profile_def)
  have "keeps_store (save_profile_body now data)"
    unfolding save_profile_body_def by (intro keeps_store_intros)
  moreover have "quiet_errors (save_profile_body now data)"
    unfolding save_profile_body_def
    by (rule quiet_rowcount) (erule update_user_none, intro error_free_bind error_free_success)
  ultimately show ?thesis
    using assms unfolding run by (rule get_db_error)
next
  case False
  then show ?thesis by (simp add: save_profile_def)
qed

lemma add_appointment_error:
  assumes "is_error (fst (add_appointment fs now data d))"
  shows "snd (add_appointment fs now data d) = d"
proof (cases "list_all (\<lambda>field. truthy (data field)) [''email'', ''doctor'', ''date'', ''time'']")
  case True
  have run: "add_appointment fs now data d
      = except server_error (get_db (add_appointment_body now data) fs d)"
    using True by (simp add: add_appointment_def)
  have "keeps_store (add_appointment_body now data)"
    unfolding add_appointment_body_def by (intro keeps_store_intros)
  moreover have "quiet_errors (add_appointment_body now data)"
    unfolding add_appointment_body_def
    by (rule quiet_check_then_write)
      (simp add: select_slot_def, intro error_free_bind error_free_success)
  ultimately show ?thesis
    using assms unfolding run by (rule get_db_error)
next
  case False
  then show ?thesis by (simp add: add_appointment_def)
qed

lemma delete_appointment_row_none:
  assumes "delete_appointment_row i email fk d = Inr (0, d')"
  shows "d' = d"
proof -
  from assms
  have none: "filter (\<lambda>a. a_id a = i \<and> sql_lower (a_user_email a) = email) (appointments d) = []"
    and d': "d' = d\<lparr>appointments :=
       filter (\<lambda>a. \<not> (a_id a = i \<and> sql_lower (a_user_email a) = email)) (appointments d)\<rparr>"
    by (auto simp add: delete_appointment_row_def)
  from none
  have "filter (\<lambda>a. \<not> (a_id a = i \<and> sql_lower (a_user_email a) = email)) (appointments d)
      = appointments d"
    by (rule filter_not_no_hit)
  with d' show ?thesis by simp
qed

lemma delete_appointment_error:
  assumes "is_error (fst (delete_appointment fs now i data d))"
  shows "snd (delete_appointment fs now i data d) = d"
proof -
  let ?body = "delete_appointment_body now i (py_lower (get_default data ''email'' []))"
  have run: "delete_appointment fs now i data d = except server_error (get_db ?body fs d)"
    by (simp add: delete_appointment_def Let_def)
  have "keeps_store ?body"
    unfolding delete_appointment_body_def by (intro keeps_store_intros)
  moreover have "quiet_errors ?body"
    unfolding delete_appointment_body_def
    by (rule quiet_rowcount)
      (erule delete_appointment_row_none, intro error_free_bind error_free_success)
  ultimately show ?thesis
    using assms unfolding run by (rule get_db_error)
qed

lemma add_medication_error:
  assumes "is_error (fst (add_medication to_integer fs now data d))"
  shows "snd (add_medication to_integer fs now data d) = d"
proof (cases "list_all (\<lambda>field. truthy (data field))
              [''email'', ''name'', ''dosage'', ''frequency'', ''duration'']")
  case True
  have run: "add_medication to_integer fs now data d
      = except server_error (get_db (add_medication_body to_integer now data) fs d)"
    using True by (simp add: add_medication_def)
  have "keeps_store (add_medication_body to_integer now data)"
    unfolding add_medication_body_def by (intro keeps_store_intros)
  moreover have "error_free (add_medication_body to_integer now data)"
    unfolding add_medication_body_def by (intro error_free_bind error_free_success)
  then have "quiet_errors (add_medication_body to_integer now data)" by (rule quiet_of_error_free)
  ultimately show ?thesis
    using assms unfolding run by (rule get_db_error)
next
  case False
  then show ?thesis by (simp add: add_medication_def)
qed

lemma delete_medication_row_none:
  assumes "delete_medication_row i email fk d = Inr (0, d')"
  shows "d' = d"
proof -
  from assms
  have none: "filter (\<lambda>m. m_id m = i \<and> sql_lower (m_user_email m) = email) (medications d) = []"
    and d': "d' = d\<lparr>medications :=
       filter (\<lambda>m. \<not> (m_id m = i \<and> sql_lower (m_user_email m) = email)) (medications d)\<rparr>"
    by (auto simp add: delete_medication_row_def)
  from none
  have "filter (\<lambda>m. \<not> (m_id m = i \<and> sql_lower (m_user_email m) = email)) (medications d)
      = medications d"
    by (rule filter_not_no_hit)
  with d' show ?thesis by simp
qed

lemma delete_medication_error:
  assumes "is_error (fst (delete_medication fs i data d))"
  shows "snd (delete_medication fs i data d) = d"
proof -
  let ?body = "delete_medication_body i (py_lower (get_default data ''email'' []))"
  have run: "delete_medication fs i data d = except server_error (get_db ?body fs d)"
    by (simp add: delete_medication_def Let_def)
  have "keeps_store ?body"
    unfolding delete_medication_body_def by (intro keeps_store_intros)
  moreover have "quiet_errors ?body"
    unfolding delete_medication_body_def
    by (rule quiet_rowcount) (erule delete_medication_row_none, rule error_free_success)
  ultimately show ?thesis
    using assms unfolding run by (rule get_db_error)
qed

lemma save_health_records_error:
  assumes "is_error (fst (save_health_records to_real fs now data d))"
  shows "snd (save_health_records to_real fs now data d) = d"
proof (cases "truthy (data ''email'')")
  case True
  have run: "save_health_records to_real fs now data d
      = except server_error (get_db (save_health_records_body to_real now data) fs d)"
    using True by (simp add: save_health_records_def)
  have "keeps_store (save_health_records_body to_real now data)"
    unfolding save_health_records_body_def by (intro keeps_store_intros)
  moreover have "error_free (save_health_records_body to_real now data)"
    unfolding save_health_records_body_def by (intro error_free_bind error_free_success)
  then have "quiet_errors (save_health_records_body to_real now data)" by (rule quiet_of_error_free)
  ultimately show ?thesis
    using assms unfolding run by (rule get_db_error)
next
  case False
  then show ?thesis by (simp add: save_health_records_def)
qed


text \<open>
  Claim C6. For each of the seven writing routes (signup, profile save, booking,
  cancelling, medication add and delete, health record save), whatever the request and
  whichever statements or commit the database refuses: when the response is an error, the
  store after the request is the store before it.
\<close>

theorem error_leaves_store_unchanged:
  "(is_error (fst (signup H fs now data d)) \<longrightarrow> snd (signup H fs now data d) = d)
   \<and> (is_error (fst (save_profile fs now data d)) \<longrightarrow> snd (save_profile fs now data d) = d)
   \<and> (is_error (fst (add_appointment fs now data d)) \<longrightarrow> snd (add_appointment fs now data d) = d)
   \<and> (is_error (fst (delete_appointment fs now i data d))
        \<longrightarrow> snd (delete_appointment fs now i data d) = d)
   \<and> (is_error (fst (add_medication to_integer fs now data d)) \<longrightarrow> snd (add_medication to_integer fs now data d) = d)
   \<and> (is_error (fst (delete_medication fs i data d)) \<longrightarrow> snd (delete_medication fs i data d) = d)
   \<and> (is_error (fst (save_health_records to_real fs now data d))
        \<longrightarrow> snd (save_health_records to_real fs now data d) = d)"
  by (intro conjI impI signup_error save_profile_error add_appointment_error
      delete_appointment_error add_medication_error delete_medication_error
      save_health_records_error)

text \<open>Claim C6 on the sample database: a signup whose log entry is refused after the user
  row was inserted, and John's cancellation whose log entry is refused after the
  appointment was deleted, both leave the store as it was.\<close>

theorem error_leaves_store_unchanged_witness:
  "signup rev [False, False, True] ''2024-12-02 08:00:00''
     [''name'' \<mapsto> ''Ann Lee'', ''email'' \<mapsto> ''ann@example.com'', ''password'' \<mapsto> ''hunter22'']
     sample_db = (server_error, sample_db)
   \<and> delete_appointment [False, True] ''2024-12-02 08:00:00'' 1 [''email'' \<mapsto> ''john@gmail.com'']
       sample_db = (server_error, sample_db)"
proof -
  let ?now = "''2024-12-02 08:00:00''"
  let ?ann = "[''name'' \<mapsto> ''Ann Lee'', ''email'' \<mapsto> ''ann@example.com'',
               ''password'' \<mapsto> ''hunter22'']"
  let ?john = "[''email'' \<mapsto> ''john@gmail.com'']"
  have 1: "fst (signup rev [False, False, True] ?now ?ann sample_db) = server_error"
    by (simp add: signup_def signup_body_def Let_def io_defs select_users_by_email_def
        insert_user_def insert_log_def sample_defs string_defs)
  have 2: "fst (delete_appointment [False, True] ?now 1 ?john sample_db) = server_error"
    by (simp add: delete_appointment_def delete_appointment_body_def Let_def io_defs
        delete_appointment_row_def insert_log_def sample_defs string_defs)
  from error_leaves_store_unchanged [of rev "[False, False, True]" ?now ?ann sample_db] 1
  have 3: "snd (signup rev [False, False, True] ?now ?ann sample_db) = sample_db"
    by simp
  from error_leaves_store_unchanged [of _ "[False, True]" ?now ?john sample_db 1] 2
  have 4: "snd (delete_appointment [False, True] ?now 1 ?john sample_db) = sample_db"
    by simp
  from 1 3 2 4 show ?thesis by (simp add: prod_eq_iff)
qed

section \<open>Deleting a user\<close>




section \<open>Properties of the chat responder\<close>

lemma first_match_none:
  "(\<forall>p \<in> set rs. \<not> contains q (fst p)) \<Longrightarrow> first_match rs q = None"
  by (induction rs) auto

lemma first_match_split:
  "(\<forall>p \<in> set before. \<not> contains q (fst p)) \<Longrightarrow> contains q k
   \<Longrightarrow> first_match (before @ (k, r) # after) q = Some r"
  by (induction before) auto

lemma replies_nonempty: "p \<in> set responses \<Longrightarrow> snd p \<noteq> []"
  by (auto simp add: responses_def reply_fever_def reply_headache_def reply_cold_def reply_cough_def
      reply_stomach_def reply_pain_def reply_stress_def reply_sleep_def reply_diet_def
      reply_exercise_def reply_diabetes_def reply_blood_pressure_def reply_weight_def
      reply_anxiety_def)

lemma chat_fever_headache:
  "chat [''question'' \<mapsto> ''I have a fever and a headache''] = reply_fever"
  by (simp add: chat_def get_default_def py_lower_def lower_char_def chat_reply_def
      responses_def reply_fever_def)

text \<open>
  Claim C8. The reply of \<open>chat\<close> is decided by the lowercased question alone: two requests
  with the same lowercased question get the same reply. The keywords are tried in the
  order fever, headache, cold, cough, stomach, pain, stress, sleep, diet, exercise,
  diabetes, blood pressure, weight, anxiety, each with its own reply, and \<open>chat\<close> returns
  the reply of the first keyword that occurs in the lowercased question. When no keyword occurs, \<open>chat\<close> returns
  the greeting for a question with "hello", "hi" or "hey", else the appointment guidance
  for one with "appointment", else the medication guidance for one with "medication" or
  "medicine", else the generic reply. The question "I have a fever and a headache" gets
  the fever reply, which is not the headache reply.
\<close>

theorem chat_first_keyword_wins:
  "(\<forall>data'. py_lower (get_default data' ''question'' []) = py_lower (get_default data ''question'' [])
       \<longrightarrow> chat data' = chat data)
   \<and> responses =
        [(''fever'', reply_fever), (''headache'', reply_headache), (''cold'', reply_cold),
         (''cough'', reply_cough), (''stomach'', reply_stomach), (''pain'', reply_pain),
         (''stress'', reply_stress), (''sleep'', reply_sleep), (''diet'', reply_diet),
         (''exercise'', reply_exercise), (''diabetes'', reply_diabetes),
         (''blood pressure'', reply_blood_pressure), (''weight'', reply_weight),
         (''anxiety'', reply_anxiety)]
   \<and> (\<forall>before k r after. responses = before @ (k, r) # after
         \<longrightarrow> contains (py_lower (get_default data ''question'' [])) k
         \<longrightarrow> (\<forall>p \<in> set before. \<not> contains (py_lower (get_default data ''question'' [])) (fst p))
         \<longrightarrow> chat data = r)
   \<and> ((\<forall>p \<in> set responses. \<not> contains (py_lower (get_default data ''question'' [])) (fst p)) \<longrightarrow>
        chat data =
          (if contains (py_lower (get_default data ''question'' [])) ''hello''
              \<or> contains (py_lower (get_default data ''question'' [])) ''hi''
              \<or> contains (py_lower (get_default data ''question'' [])) ''hey'' then reply_greeting
           else if contains (py_lower (get_default data ''question'' [])) ''appointment''
           then reply_appointment
           else if contains (py_lower (get_default data ''question'' [])) ''medication''
              \<or> contains (py_lower (get_default data ''question'' [])) ''medicine''
           then reply_medication
           else reply_generic))
   \<and> chat [''question'' \<mapsto> ''I have a fever and a headache''] = reply_fever
   \<and> reply_fever \<noteq> reply_headache"
proof (intro conjI allI impI)
  fix data'
  assume "py_lower (get_default data' ''question'' []) = py_lower (get_default data ''question'' [])"
  then show "chat data' = chat data" by (simp add: chat_def)
next
  show "responses =
        [(''fever'', reply_fever), (''headache'', reply_headache), (''cold'', reply_cold),
         (''cough'', reply_cough), (''stomach'', reply_stomach), (''pain'', reply_pain),
         (''stress'', reply_stress), (''sleep'', reply_sleep), (''diet'', reply_diet),
         (''exercise'', reply_exercise), (''diabetes'', reply_diabetes),
         (''blood pressure'', reply_blood_pressure), (''weight'', reply_weight),
         (''anxiety'', reply_anxiety)]"
    by (simp add: responses_def)
next
  let ?q = "py_lower (get_default data ''question'' [])"
  fix before k r after
  assume split: "responses = before @ (k, r) # after" and hit: "contains ?q k"
    and miss: "\<forall>p \<in> set before. \<not> contains ?q (fst p)"
  have "(k, r) \<in> set responses" by (simp add: split)
  then have "r \<noteq> []" using replies_nonempty by fastforce
  moreover have "first_match responses ?q = Some r"
    unfolding split using miss hit by (rule first_match_split)
  ultimately show "chat data = r" by (simp add: chat_def chat_reply_def)
next
  let ?q = "py_lower (get_default data ''question'' [])"
  assume "\<forall>p \<in> set responses. \<not> contains ?q (fst p)"
  then have "first_match responses ?q = None" by (rule first_match_none)
  then show "chat data =
          (if contains ?q ''hello'' \<or> contains ?q ''hi'' \<or> contains ?q ''hey'' then reply_greeting
           else if contains ?q ''appointment'' then reply_appointment
           else if contains ?q ''medication'' \<or> contains ?q ''medicine'' then reply_medication
           else reply_generic)"
    by (simp add: chat_def chat_reply_def fallback_def)
next
  show "chat [''question'' \<mapsto> ''I have a fever and a headache''] = reply_fever"
    by (rule chat_fever_headache)
next
  show "reply_fever \<noteq> reply_headache" by (simp add: reply_fever_def reply_headache_def)
qed

text \<open>Claim C8 at concrete questions: "Fever" and "FEVER" get the same reply; "My STOMACH
  pain" gets the stomach reply, stomach coming before pain; "Where is my Medicine" has no
  keyword and gets the medication guidance; a request without question gets the generic
  reply.\<close>

theorem chat_first_keyword_wins_witness:
  "chat [''question'' \<mapsto> ''Fever''] = chat [''question'' \<mapsto> ''FEVER'']
   \<and> chat [''question'' \<mapsto> ''My STOMACH pain''] = reply_stomach
   \<and> chat [''question'' \<mapsto> ''Where is my Medicine''] = reply_medication
   \<and> chat Map.empty = reply_generic"
proof -
  let ?fever = "[''question'' \<mapsto> ''FEVER'']"
  let ?stomach = "[''question'' \<mapsto> ''My STOMACH pain'']"
  let ?medicine = "[''question'' \<mapsto> ''Where is my Medicine'']"
  have low: "py_lower (get_default [''question'' \<mapsto> ''Fever''] ''question'' [])
        = py_lower (get_default ?fever ''question'' [])"
    by (simp add: string_defs)
  from chat_first_keyword_wins [of ?fever] low
  have 1: "chat [''question'' \<mapsto> ''Fever''] = chat ?fever" by blast
  have qs: "py_lower (get_default ?stomach ''question'' []) = ''my stomach pain''"
    by (simp add: string_defs)
  have sp: "responses = take 4 responses @ (''stomach'', reply_stomach) # drop 5 responses"
    by (simp add: responses_def)
  have hit: "contains ''my stomach pain'' ''stomach''" by simp
  have miss: "\<forall>p \<in> set (take 4 responses). \<not> contains ''my stomach pain'' (fst p)"
    by (simp add: responses_def)
  from chat_first_keyword_wins [of ?stomach] sp hit miss
  have 2: "chat ?stomach = reply_stomach" unfolding qs by blast
  have qm: "py_lower (get_default ?medicine ''question'' []) = ''where is my medicine''"
    by (simp add: string_defs)
  have none: "\<forall>p \<in> set responses. \<not> contains ''where is my medicine'' (fst p)"
    by (simp add: responses_def)
  have fb: "\<not> (contains ''where is my medicine'' ''hello'' \<or> contains ''where is my medicine'' ''hi''
        \<or> contains ''where is my medicine'' ''hey'')"
    "\<not> contains ''where is my medicine'' ''appointment''"
    "contains ''where is my medicine'' ''medicine''"
    by simp_all
  from chat_first_keyword_wins [of ?medicine] none fb
  have 3: "chat ?medicine = reply_medication" unfolding qm by simp
  have qe: "py_lower (get_default Map.empty ''question'' []) = []"
    by (simp add: string_defs)
  have none': "\<forall>p \<in> set responses. \<not> contains [] (fst p)"
    by (simp add: responses_def)
  from chat_first_keyword_wins [of Map.empty] none'
  have 4: "chat Map.empty = reply_generic" unfolding qe by simp
  from 1 2 3 4 show ?thesis by blast
qed

end
